theory Spec2Isabelle
  imports Complex_Main
begin

section \<open>Geometry\<close>

text \<open>
  The source computes in \<open>float\<close> and \<open>double\<close>. The embedding reads every such
  quantity as a real number: comparisons and the order of the operations are those of the
  source, rounding is not modelled.
\<close>

datatype v3 = V3 (vx: real) (vy: real) (vz: real)

datatype v4 = V4 (head3: v3) (w4: real)

datatype m3 = M3 (row1: v3) (row2: v3) (row3: v3)

definition add3 :: "v3 \<Rightarrow> v3 \<Rightarrow> v3" where
  "add3 a b = V3 (vx a + vx b) (vy a + vy b) (vz a + vz b)"

definition sub3 :: "v3 \<Rightarrow> v3 \<Rightarrow> v3" where
  "sub3 a b = V3 (vx a - vx b) (vy a - vy b) (vz a - vz b)"

definition dot3 :: "v3 \<Rightarrow> v3 \<Rightarrow> real" where
  "dot3 a b = vx a * vx b + vy a * vy b + vz a * vz b"

definition dot4 :: "v4 \<Rightarrow> v4 \<Rightarrow> real" where
  "dot4 a b = dot3 (head3 a) (head3 b) + w4 a * w4 b"

definition squaredNorm :: "v3 \<Rightarrow> real" where
  "squaredNorm a = dot3 a a"

definition norm3 :: "v3 \<Rightarrow> real" where
  "norm3 a = sqrt (squaredNorm a)"

definition mv :: "m3 \<Rightarrow> v3 \<Rightarrow> v3" where
  "mv A v = V3 (dot3 (row1 A) v) (dot3 (row2 A) v) (dot3 (row3 A) v)"

definition transpose3 :: "m3 \<Rightarrow> m3" where
  "transpose3 A =
     M3 (V3 (vx (row1 A)) (vx (row2 A)) (vx (row3 A)))
        (V3 (vy (row1 A)) (vy (row2 A)) (vy (row3 A)))
        (V3 (vz (row1 A)) (vz (row2 A)) (vz (row3 A)))"

definition mm :: "m3 \<Rightarrow> m3 \<Rightarrow> m3" where
  "mm A B =
     (let Bt = transpose3 B
      in M3 (V3 (dot3 (row1 A) (row1 Bt)) (dot3 (row1 A) (row2 Bt)) (dot3 (row1 A) (row3 Bt)))
            (V3 (dot3 (row2 A) (row1 Bt)) (dot3 (row2 A) (row2 Bt)) (dot3 (row2 A) (row3 Bt)))
            (V3 (dot3 (row3 A) (row1 Bt)) (dot3 (row3 A) (row2 Bt)) (dot3 (row3 A) (row3 Bt))))"

definition identity3 :: m3 where
  "identity3 = M3 (V3 1 0 0) (V3 0 1 0) (V3 0 0 1)"

text \<open>
  \<open>PointType\<close>: the coordinates, the intensity and the curvature field, which carries the
  per-point time offset in milliseconds. The normal fields of the PCL point are never read
  in this file and are left out.
\<close>

record point =
  xyz :: v3
  intensity :: real
  curvature :: real

definition PointType :: point where
  "PointType = \<lparr>xyz = V3 0 0 0, intensity = 0, curvature = 0\<rparr>"

text \<open>The part of the filter state \<open>state_ikfom\<close> that this file reads; rotations as matrices.\<close>

record state_ikfom =
  pos :: v3
  rot :: m3
  offset_R_L_I :: m3
  offset_T_L_I :: v3

text \<open>\<open>std::vector::resize(n, d)\<close>: keeps the first \<open>n\<close> elements, pads with \<open>d\<close>.\<close>

definition resize :: "nat \<Rightarrow> 'a \<Rightarrow> 'a list \<Rightarrow> 'a list" where
  "resize n d xs = take n xs @ replicate (n - length xs) d"

section \<open>The observation model\<close>

text \<open>
  What \<open>ObsModel\<close> and \<open>MapIncremental\<close> use from headers outside
  \<open>laser_mapping.cc\<close>: the map's nearest-neighbour query (already applied to the map and to
  \<open>NUM_MATCH_POINTS\<close>), the plane fit (already applied to \<open>ESTI_PLANE_THRESHOLD\<close>; it
  receives the coefficient slot by reference and returns success), the constants
  \<open>MIN_NUM_MATCH_POINTS\<close> and \<open>NUM_MATCH_POINTS\<close>, the macro \<open>SKEW_SYM_MATRIX\<close> and,
  for the map update, \<open>common::calc_dist\<close>.
\<close>

record env =
  GetClosestPoint :: "point \<Rightarrow> point list"
  esti_plane :: "v4 \<Rightarrow> point list \<Rightarrow> bool \<times> v4"
  MIN_NUM_MATCH_POINTS :: nat
  NUM_MATCH_POINTS :: nat
  SKEW_SYM_MATRIX :: "v3 \<Rightarrow> m3"
  calc_dist :: "v3 \<Rightarrow> v3 \<Rightarrow> real"

text \<open>The members of \<open>LaserMapping\<close> that registration and map update work on.\<close>

record registration =
  scan_down_body :: "point list"
  scan_down_world :: "point list"
  nearest_points :: "point list list"
  point_selected_surf :: "bool list"
  plane_coef :: "v4 list"
  residuals :: "real list"
  corr_pts :: "v4 list"
  corr_norm :: "v4 list"
  effect_feat_num :: nat
  extrinsic_est_en :: bool
  flg_EKF_inited :: bool
  filter_size_map_min :: real
  state_point :: state_ikfom

text \<open>\<open>esekfom::dyn_share_datastruct\<close>: what filter and observation model share.\<close>

record dyn_share =
  valid :: bool
  converge :: bool
  h_x :: "real list list"
  h :: "real list"

definition valid_corr :: "v3 \<Rightarrow> real \<Rightarrow> bool" where
  "valid_corr p_body pd2 \<longleftrightarrow> norm3 p_body > 81 * pd2 * pd2"

text \<open>The branch \<open>if (ekfom_data.converge)\<close> of the per-point loop.\<close>

definition refresh_corr :: "env \<Rightarrow> nat \<Rightarrow> point \<Rightarrow> registration \<Rightarrow> registration" where
  "refresh_corr E i point_world r =
     (let points_near = GetClosestPoint E point_world;
          r1 = r\<lparr>nearest_points := (nearest_points r)[i := points_near],
                 point_selected_surf :=
                   (point_selected_surf r)[i := length points_near \<ge> MIN_NUM_MATCH_POINTS E]\<rparr>
      in if point_selected_surf r1 ! i
         then (let (ok, coef) = esti_plane E (plane_coef r1 ! i) points_near
               in r1\<lparr>plane_coef := (plane_coef r1)[i := coef],
                     point_selected_surf := (point_selected_surf r1)[i := ok]\<rparr>)
         else r1)"

text \<open>The branch \<open>if (point_selected_surf_[i])\<close> of the per-point loop.\<close>

definition validity_gate :: "nat \<Rightarrow> v3 \<Rightarrow> point \<Rightarrow> registration \<Rightarrow> registration" where
  "validity_gate i p_body point_world r =
     (let temp = V4 (xyz point_world) 1;
          pd2 = dot4 (plane_coef r ! i) temp
      in if valid_corr p_body pd2
         then r\<lparr>point_selected_surf := (point_selected_surf r)[i := True],
                residuals := (residuals r)[i := pd2]\<rparr>
         else r)"

text \<open>One pass of the body of the first parallel loop, for the point of index \<open>i\<close>.\<close>

definition lidar_match :: "env \<Rightarrow> m3 \<Rightarrow> v3 \<Rightarrow> bool \<Rightarrow> nat \<Rightarrow> registration \<Rightarrow> registration" where
  "lidar_match E R_wl t_wl conv i r =
     (let point_body = scan_down_body r ! i;
          p_body = xyz point_body;
          point_world = PointType\<lparr>xyz := add3 (mv R_wl p_body) t_wl,
                                  intensity := intensity point_body\<rparr>;
          r1 = r\<lparr>scan_down_world := (scan_down_world r)[i := point_world]\<rparr>;
          r2 = (if conv then refresh_corr E i point_world r1 else r1)
      in if point_selected_surf r2 ! i then validity_gate i p_body point_world r2 else r2)"

text \<open>The body of the loop that compacts the selected correspondences.\<close>

definition collect_corr :: "nat \<Rightarrow> registration \<Rightarrow> registration" where
  "collect_corr i r =
     (if point_selected_surf r ! i
      then r\<lparr>corr_norm := (corr_norm r)[effect_feat_num r := plane_coef r ! i],
             corr_pts := (corr_pts r)[effect_feat_num r :=
                           V4 (xyz (scan_down_body r ! i)) (residuals r ! i)],
             effect_feat_num := effect_feat_num r + 1\<rparr>
      else r)"

text \<open>One row of the measurement Jacobian, as a list of its twelve entries.\<close>

definition list3 :: "v3 \<Rightarrow> real list" where
  "list3 v = [vx v, vy v, vz v]"

definition jacobian_row :: "env \<Rightarrow> state_ikfom \<Rightarrow> bool \<Rightarrow> v4 \<Rightarrow> v4 \<Rightarrow> real list" where
  "jacobian_row E s est corr_pt corr_nrm =
     (let off_R = offset_R_L_I s;
          off_t = offset_T_L_I s;
          Rt = transpose3 (rot s);
          point_this_be = head3 corr_pt;
          point_be_crossmat = SKEW_SYM_MATRIX E point_this_be;
          point_this = add3 (mv off_R point_this_be) off_t;
          point_crossmat = SKEW_SYM_MATRIX E point_this;
          norm_vec = head3 corr_nrm;
          C = mv Rt norm_vec;
          A = mv point_crossmat C
      in if est
         then (let B = mv (mm point_be_crossmat (transpose3 off_R)) C
               in list3 norm_vec @ list3 A @ list3 B @ list3 C)
         else list3 norm_vec @ list3 A @ [0, 0, 0, 0, 0, 0])"

text \<open>
  \<open>LaserMapping::ObsModel\<close>. The two parallel loops write disjoint slots, so they are
  read as loops in index order. The condition number that is published at the end changes
  neither the shared data nor the members and is left out.
\<close>

definition ObsModel :: "env \<Rightarrow> state_ikfom \<Rightarrow> dyn_share \<Rightarrow> registration \<Rightarrow> dyn_share \<times> registration" where
  "ObsModel E s ekfom_data r =
     (let cnt_pts = length (scan_down_body r);
          R_wl = mm (rot s) (offset_R_L_I s);
          t_wl = add3 (mv (rot s) (offset_T_L_I s)) (pos s);
          r1 = fold (lidar_match E R_wl t_wl (converge ekfom_data)) [0..<cnt_pts] r;
          r2 = r1\<lparr>effect_feat_num := 0,
                  corr_pts := resize cnt_pts (V4 (V3 0 0 0) 0) (corr_pts r1),
                  corr_norm := resize cnt_pts (V4 (V3 0 0 0) 0) (corr_norm r1)\<rparr>;
          r3 = fold collect_corr [0..<cnt_pts] r2;
          r4 = r3\<lparr>corr_pts := resize (effect_feat_num r3) (V4 (V3 0 0 0) 0) (corr_pts r3),
                  corr_norm := resize (effect_feat_num r3) (V4 (V3 0 0 0) 0) (corr_norm r3)\<rparr>
      in if effect_feat_num r4 < 1
         then (ekfom_data\<lparr>valid := False\<rparr>, r4)
         else (ekfom_data\<lparr>
                 h_x := map (\<lambda>i. jacobian_row E s (extrinsic_est_en r4)
                                    (corr_pts r4 ! i) (corr_norm r4 ! i))
                            [0..<effect_feat_num r4],
                 h := map (\<lambda>i. - w4 (corr_pts r4 ! i)) [0..<effect_feat_num r4]\<rparr>, r4))"

section \<open>The map update\<close>

definition PointBodyToWorld :: "state_ikfom \<Rightarrow> point \<Rightarrow> point" where
  "PointBodyToWorld sp p_in =
     (let p_body = xyz p_in;
          p_global = add3 (mv (rot sp) (add3 (mv (offset_R_L_I sp) p_body) (offset_T_L_I sp)))
                          (pos sp)
      in PointType\<lparr>xyz := p_global, intensity := intensity p_in\<rparr>)"

text \<open>
  The centre of the cell of side \<open>filter_size_map_min\<close> that holds a point. For a side of
  0 the quotient of the source is infinite or not a number and its product with the side is
  not a number on every axis: that is \<open>None\<close>.
\<close>

definition cell_center :: "real \<Rightarrow> v3 \<Rightarrow> v3 option" where
  "cell_center sz p =
     (if sz = 0 then None
      else Some (V3 ((real_of_int \<lfloor>vx p / sz\<rfloor> + 0.5) * sz)
                    ((real_of_int \<lfloor>vy p / sz\<rfloor> + 0.5) * sz)
                    ((real_of_int \<lfloor>vz p / sz\<rfloor> + 0.5) * sz)))"

text \<open>
  The loop \<open>for (readd_i = 0; readd_i < NUM_MATCH_POINTS; readd_i++)\<close> with its
  \<open>break\<close>; \<open>d\<close> is the source's \<open>dist\<close>, the result is the value of \<open>need_add\<close>
  after the loop.
\<close>

function readd_loop :: "env \<Rightarrow> point list \<Rightarrow> v3 \<Rightarrow> real \<Rightarrow> nat \<Rightarrow> bool" where
  "readd_loop E points_near center d readd_i =
     (if readd_i < NUM_MATCH_POINTS E
      then (if calc_dist E (xyz (points_near ! readd_i)) center < d + 0.000001
            then False
            else readd_loop E points_near center d (readd_i + 1))
      else True)"
  by pat_completeness auto
termination
  by (relation "measure (\<lambda>(E, points_near, center, d, readd_i). NUM_MATCH_POINTS E - readd_i)")
     auto

text \<open>
  Where the body of the loop of \<open>MapIncremental\<close> puts a point. Against a centre that is
  not a number every comparison of the source is false: the test on the three axes fails,
  and no neighbour counts as closer, the distances to such a centre being no numbers
  either, so \<open>need_add\<close> stays true.
\<close>

datatype lane = NoNeedDownsample | ToAdd | Dropped

definition map_lane :: "env \<Rightarrow> real \<Rightarrow> bool \<Rightarrow> point list \<Rightarrow> point \<Rightarrow> lane" where
  "map_lane E sz inited points_near point_world =
     (if points_near \<noteq> [] \<and> inited
      then (case cell_center sz (xyz point_world) of
              None \<Rightarrow> ToAdd
            | Some center \<Rightarrow>
                (let dis_2_center = sub3 (xyz (points_near ! 0)) center
                 in if \<bar>vx dis_2_center\<bar> > 0.5 * sz \<and>
                       \<bar>vy dis_2_center\<bar> > 0.5 * sz \<and>
                       \<bar>vz dis_2_center\<bar> > 0.5 * sz
                    then NoNeedDownsample
                    else (let d = calc_dist E (xyz point_world) center;
                              need_add = (if length points_near \<ge> NUM_MATCH_POINTS E
                                          then readd_loop E points_near center d 0
                                          else True)
                          in if need_add then ToAdd else Dropped)))
      else ToAdd)"

text \<open>
  The state of the loop of \<open>MapIncremental\<close>: the members, \<open>points_to_add\<close> and
  \<open>point_no_need_downsample\<close>.
\<close>

type_synonym map_acc = "registration \<times> point list \<times> point list"

definition map_point :: "env \<Rightarrow> nat \<Rightarrow> map_acc \<Rightarrow> map_acc" where
  "map_point E i acc =
     (let (r, points_to_add, point_no_need_downsample) = acc;
          point_world = PointBodyToWorld (state_point r) (scan_down_body r ! i);
          r1 = r\<lparr>scan_down_world := (scan_down_world r)[i := point_world]\<rparr>
      in case map_lane E (filter_size_map_min r) (flg_EKF_inited r)
                (nearest_points r ! i) point_world of
           NoNeedDownsample \<Rightarrow> (r1, points_to_add, point_no_need_downsample @ [point_world])
         | ToAdd \<Rightarrow> (r1, points_to_add @ [point_world], point_no_need_downsample)
         | Dropped \<Rightarrow> (r1, points_to_add, point_no_need_downsample))"

text \<open>
  \<open>LaserMapping::MapIncremental\<close>: the members afterwards and the arguments of the two
  calls of \<open>ivox_->AddPoints\<close>, in the order of the calls.
\<close>

definition MapIncremental :: "env \<Rightarrow> registration \<Rightarrow> registration \<times> point list list" where
  "MapIncremental E r =
     (let cur_pts = length (scan_down_body r);
          (r1, points_to_add, point_no_need_downsample) = fold (map_point E) [0..<cur_pts] (r, [], [])
      in (r1, [points_to_add, point_no_need_downsample]))"

section \<open>Messages and members of the driver\<close>

record imu_msg =
  imu_stamp :: real
  angular_velocity :: v3
  linear_acceleration :: v3

text \<open>
  A point-cloud message: its header stamp and the cloud that \<open>preprocess_->Process\<close>
  decodes from it.
\<close>

record cloud_msg =
  cloud_stamp :: real
  cloud :: "point list"

text \<open>\<open>MeasureGroup\<close>; \<open>meas_end_time\<close> is its member \<open>lidar_end_time_\<close>.\<close>

record MeasureGroup =
  lidar :: "point list"
  lidar_bag_time :: real
  meas_end_time :: real
  imu :: "imu_msg list"

record pose =
  position :: v3
  orientation :: m3

record pose_stamped =
  pose_stamp :: real
  pose_of :: pose

record odometry =
  odom_stamp :: real
  odom_pose :: pose
  covariance :: "real list"

datatype msg =
    OdometryMsg odometry
  | KeypointsMsg "point list"
  | PathMsg "pose_stamped list"
  | CloudWorldMsg
  | CloudBodyMsg

text \<open>The filter: its state and its covariance, read as \<open>P(i, j)\<close>.\<close>

record esekf =
  kf_x :: state_ikfom
  kf_P :: "nat \<Rightarrow> nat \<Rightarrow> real"

datatype LidarType = AVIA | VELO32 | OUST64

datatype NearbyType = CENTER | NEARBY6 | NEARBY18 | NEARBY26

text \<open>
  The members of \<open>LaserMapping\<close>, named as in the source without the trailing underscore.
  \<open>path\<close> is \<open>path_.poses\<close>, \<open>meas\<close> is \<open>measures_\<close>, \<open>lidar_type\<close> and \<open>nearby_type\<close>
  are the settings of the preprocessor and of \<open>ivox_options_\<close>, \<open>pub_odom_aft_mapped\<close>
  says whether that publisher is valid. \<open>ivox_AddPoints\<close> lists the arguments of the calls
  of \<open>ivox_->AddPoints\<close> and \<open>published\<close> the messages handed to the publishers, both in
  the order of the calls.
\<close>

record laser_mapping =
  lidar_buffer :: "point list list"
  time_buffer :: "real list"
  imu_buffer :: "imu_msg list"
  last_timestamp_lidar :: real
  last_timestamp_imu :: real
  timediff_lidar_wrt_imu :: real
  time_sync_en :: bool
  lidar_pushed :: bool
  lidar_end_time :: real
  lidar_mean_scantime :: real
  scan_num :: nat
  scan_count :: nat
  publish_count :: int
  meas :: MeasureGroup
  lidar_odom :: bool
  flg_first_scan :: bool
  first_lidar_time :: real
  path :: "pose_stamped list"
  msg_body_pose :: pose_stamped
  odom_aft_mapped :: odometry
  run_in_offline :: bool
  path_pub_en :: bool
  path_save_en :: bool
  scan_pub_en :: bool
  scan_body_pub_en :: bool
  pcd_save_en :: bool
  pub_odom_aft_mapped :: bool
  pcl_wait_save :: "point list"
  frame_num :: nat
  lidar_type :: LidarType
  nearby_type :: NearbyType
  kf :: esekf
  reg :: registration
  ivox_AddPoints :: "point list list"
  published :: "msg list"

section \<open>Sensor intake\<close>

definition StandardPCLCallBack :: "cloud_msg \<Rightarrow> laser_mapping \<Rightarrow> laser_mapping" where
  "StandardPCLCallBack m s =
     (let s1 = s\<lparr>scan_count := scan_count s + 1\<rparr>;
          s2 = (if cloud_stamp m < last_timestamp_lidar s1
                then s1\<lparr>lidar_buffer := []\<rparr>
                else s1)
      in s2\<lparr>lidar_buffer := lidar_buffer s2 @ [cloud m],
             time_buffer := time_buffer s2 @ [cloud_stamp m],
             last_timestamp_lidar := cloud_stamp m\<rparr>)"

definition IMUCallBack :: "imu_msg \<Rightarrow> laser_mapping \<Rightarrow> laser_mapping" where
  "IMUCallBack msg_in s =
     (let s1 = s\<lparr>publish_count := publish_count s + 1\<rparr>;
          m = (if \<bar>timediff_lidar_wrt_imu s1\<bar> > 0.1 \<and> time_sync_en s1
               then msg_in\<lparr>imu_stamp := timediff_lidar_wrt_imu s1 + imu_stamp msg_in\<rparr>
               else msg_in);
          timestamp = imu_stamp m;
          s2 = (if timestamp < last_timestamp_imu s1 then s1\<lparr>imu_buffer := []\<rparr> else s1)
      in s2\<lparr>last_timestamp_imu := timestamp, imu_buffer := imu_buffer s2 @ [m]\<rparr>)"

text \<open>
  \<open>Reset\<close>. The map and the IMU processor, which it also resets, are objects outside
  this record.
\<close>

definition Reset :: "laser_mapping \<Rightarrow> laser_mapping" where
  "Reset s = s\<lparr>flg_first_scan := True, path := [], pcl_wait_save := [],
               lidar_buffer := [], time_buffer := [], lidar_pushed := False\<rparr>"

section \<open>The synchroniser\<close>

text \<open>
  The block \<open>if (!lidar_pushed_)\<close>. \<open>front()\<close> of an empty deque is undefined in C++,
  which is the result \<open>None\<close>. \<open>scan_num\<close> counts up from zero, so the division is by a
  positive number.
\<close>

definition push_scan :: "laser_mapping \<Rightarrow> laser_mapping option" where
  "push_scan s =
     (if lidar_pushed s then Some s
      else case (lidar_buffer s, time_buffer s) of
        (scan # _, t # _) \<Rightarrow>
          (let m = (meas s)\<lparr>lidar := scan, lidar_bag_time := t\<rparr>;
               s1 = s\<lparr>meas := m\<rparr>;
               s2 = (if length scan \<le> 1
                     then s1\<lparr>lidar_end_time := t + lidar_mean_scantime s1\<rparr>
                     else if curvature (last scan) / 1000 < 0.5 * lidar_mean_scantime s1
                     then s1\<lparr>lidar_end_time := t + lidar_mean_scantime s1\<rparr>
                     else s1\<lparr>scan_num := scan_num s1 + 1,
                             lidar_end_time := t + curvature (last scan) / 1000,
                             lidar_mean_scantime := lidar_mean_scantime s1 +
                               (curvature (last scan) / 1000 - lidar_mean_scantime s1)
                                 / real (scan_num s1 + 1)\<rparr>)
           in Some (s2\<lparr>meas := (meas s2)\<lparr>meas_end_time := lidar_end_time s2\<rparr>,
                       lidar_pushed := True\<rparr>))
      | _ \<Rightarrow> None)"

text \<open>
  The loop that moves IMU messages from the buffer to the bundle: the scan-end time, the
  variable \<open>imu_time\<close>, the buffer and the bundle so far; the result is the bundle and the
  buffer after the loop.
\<close>

fun drain_imu :: "real \<Rightarrow> real \<Rightarrow> imu_msg list \<Rightarrow> imu_msg list \<Rightarrow> imu_msg list \<times> imu_msg list" where
  "drain_imu t_e imu_time [] out = (out, [])"
| "drain_imu t_e imu_time (m # buf) out =
     (if imu_time < t_e
      then (if imu_stamp m > t_e
            then (out, m # buf)
            else drain_imu t_e (imu_stamp m) buf (out @ [m]))
      else (out, m # buf))"

text \<open>\<open>SyncPackages\<close>: the returned flag and the members afterwards.\<close>

definition SyncPackages :: "laser_mapping \<Rightarrow> (bool \<times> laser_mapping) option" where
  "SyncPackages s =
     (if lidar_buffer s = [] \<or> imu_buffer s = [] then Some (False, s)
      else case push_scan s of
        None \<Rightarrow> None
      | Some s1 \<Rightarrow>
          if last_timestamp_imu s1 < lidar_end_time s1 then Some (False, s1)
          else (let imu_time = imu_stamp (hd (imu_buffer s1));
                    (taken, rest) = drain_imu (lidar_end_time s1) imu_time (imu_buffer s1) [];
                    s2 = s1\<lparr>meas := (meas s1)\<lparr>imu := taken\<rparr>, imu_buffer := rest\<rparr>
                in case (lidar_buffer s2, time_buffer s2) of
                     (_ # lb, _ # tb) \<Rightarrow>
                       Some (True, s2\<lparr>lidar_buffer := lb, time_buffer := tb,
                                      lidar_pushed := False\<rparr>)
                   | _ \<Rightarrow> None))"

section \<open>Control and publication\<close>

definition startLIO :: "laser_mapping \<Rightarrow> bool \<times> laser_mapping" where
  "startLIO s = (True, s\<lparr>path := [], lidar_odom := True\<rparr>)"

definition stopLIO :: "laser_mapping \<Rightarrow> bool \<times> laser_mapping" where
  "stopLIO s = (True, s\<lparr>lidar_odom := False\<rparr>)"

definition SetPosestamp :: "state_ikfom \<Rightarrow> pose" where
  "SetPosestamp sp = \<lparr>position = pos sp, orientation = rot sp\<rparr>"

definition PublishPath :: "laser_mapping \<Rightarrow> laser_mapping" where
  "PublishPath s =
     (let m = \<lparr>pose_stamp = lidar_end_time s, pose_of = SetPosestamp (state_point (reg s))\<rparr>;
          s1 = s\<lparr>msg_body_pose := m, path := path s @ [m]\<rparr>
      in if \<not> run_in_offline s1
         then s1\<lparr>published := published s1 @ [PathMsg (path s1)]\<rparr>
         else s1)"

definition PublishKeypoints :: "laser_mapping \<Rightarrow> laser_mapping" where
  "PublishKeypoints s = s\<lparr>published := published s @ [KeypointsMsg (scan_down_world (reg s))]\<rparr>"

text \<open>The body of the loop that copies the covariance, for the row \<open>i\<close>.\<close>

definition covariance_row :: "(nat \<Rightarrow> nat \<Rightarrow> real) \<Rightarrow> nat \<Rightarrow> real list \<Rightarrow> real list" where
  "covariance_row P i c =
     (let k = (if i < 3 then i + 3 else i - 3)
      in c[i * 6 + 0 := P k 3, i * 6 + 1 := P k 4, i * 6 + 2 := P k 5,
           i * 6 + 3 := P k 0, i * 6 + 4 := P k 1, i * 6 + 5 := P k 2])"

text \<open>
  \<open>PublishOdometry\<close>. The transform broadcast, which reads the message and changes no
  member, is left out; the identity orientation \<open>(0, 0, 0, 1)\<close> is the identity matrix.
\<close>

definition PublishOdometry :: "laser_mapping \<Rightarrow> laser_mapping" where
  "PublishOdometry s =
     (if \<not> lidar_odom s
      then (let o1 = (odom_aft_mapped s)\<lparr>
                       odom_stamp := lidar_end_time s,
                       odom_pose := \<lparr>position = V3 0 0 0, orientation = identity3\<rparr>\<rparr>
            in s\<lparr>odom_aft_mapped := o1, published := published s @ [OdometryMsg o1]\<rparr>)
      else (let o1 = (odom_aft_mapped s)\<lparr>
                       odom_stamp := lidar_end_time s,
                       odom_pose := SetPosestamp (state_point (reg s))\<rparr>;
                s1 = s\<lparr>odom_aft_mapped := o1, published := published s @ [OdometryMsg o1]\<rparr>;
                P = kf_P (kf s1);
                o2 = o1\<lparr>covariance := fold (covariance_row P) [0..<6] (covariance o1)\<rparr>
            in s1\<lparr>odom_aft_mapped := o2\<rparr>))"

text \<open>
  \<open>PublishFrameWorld\<close> and \<open>PublishFrameBody\<close>, as far as the stream of messages goes:
  the clouds they send, the saving to disk with \<open>pcl_wait_save_\<close> and the counter
  \<open>publish_count_\<close> are left out.
\<close>

definition PublishFrameWorld :: "laser_mapping \<Rightarrow> laser_mapping" where
  "PublishFrameWorld s =
     (if \<not> (run_in_offline s = False \<and> scan_pub_en s) \<and> \<not> pcd_save_en s then s
      else if run_in_offline s = False \<and> scan_pub_en s
      then s\<lparr>published := published s @ [CloudWorldMsg]\<rparr>
      else s)"

definition PublishFrameBody :: "laser_mapping \<Rightarrow> laser_mapping" where
  "PublishFrameBody s = s\<lparr>published := published s @ [CloudBodyMsg]\<rparr>"

section \<open>The driver\<close>

text \<open>
  What \<open>Run\<close> calls from outside this file: the IMU processor (prediction and
  undistortion of the scan; one call, the processor's own state is not modelled), the voxel
  filter \<open>voxel_scan_\<close>, the iterated update of the filter, which calls \<open>ObsModel\<close>, and the
  constant \<open>INIT_TIME\<close>.
\<close>

record collab =
  imu_Process :: "MeasureGroup \<Rightarrow> esekf \<Rightarrow> esekf \<times> point list"
  voxel_scan_filter :: "point list \<Rightarrow> point list"
  update_iterated_dyn_share_modified :: "esekf \<Rightarrow> registration \<Rightarrow> esekf \<times> registration"
  INIT_TIME :: real

text \<open>The branch \<open>if (!lidar_odom_)\<close> of \<open>Run\<close>.\<close>

definition run_idle :: "collab \<Rightarrow> point list \<Rightarrow> laser_mapping \<Rightarrow> laser_mapping" where
  "run_idle X scan_undistort s =
     (let body = voxel_scan_filter X scan_undistort;
          s1 = s\<lparr>reg := (reg s)\<lparr>scan_down_body := body,
                                 scan_down_world :=
                                   map (PointBodyToWorld (state_point (reg s))) body\<rparr>\<rparr>;
          s2 = PublishKeypoints (PublishOdometry s1);
          s3 = PublishPath (s2\<lparr>path := []\<rparr>)
      in s3\<lparr>flg_first_scan := True\<rparr>)"

text \<open>The part of \<open>Run\<close> after the guard on the number of downsampled points.\<close>

definition run_update :: "env \<Rightarrow> collab \<Rightarrow> laser_mapping \<Rightarrow> laser_mapping" where
  "run_update E X s =
     (let cur_pts = length (scan_down_body (reg s));
          r = (reg s)\<lparr>scan_down_world := resize cur_pts PointType (scan_down_world (reg s)),
                      nearest_points := resize cur_pts [] (nearest_points (reg s)),
                      residuals := resize cur_pts 0 (residuals (reg s)),
                      point_selected_surf := resize cur_pts True (point_selected_surf (reg s)),
                      plane_coef := resize cur_pts (V4 (V3 0 0 0) 0) (plane_coef (reg s))\<rparr>;
          (kf1, r1) = update_iterated_dyn_share_modified X (kf s) r;
          r2 = r1\<lparr>state_point := kf_x kf1\<rparr>;
          (r3, added) = MapIncremental E r2;
          s1 = s\<lparr>kf := kf1, reg := r3, ivox_AddPoints := ivox_AddPoints s @ added\<rparr>;
          s2 = PublishPath (PublishKeypoints s1);
          s3 = (if run_in_offline s2
                then (let a = (if pcd_save_en s2 then PublishFrameWorld s2 else s2)
                      in if path_save_en a then PublishPath a else a)
                else (let a = (if pub_odom_aft_mapped s2 then PublishOdometry s2 else s2);
                          b = (if path_pub_en a \<or> path_save_en a then PublishPath a else a);
                          c = (if scan_pub_en b \<or> pcd_save_en b then PublishFrameWorld b else b)
                      in if scan_pub_en c \<and> scan_body_pub_en c then PublishFrameBody c else c))
      in s3\<lparr>frame_num := frame_num s3 + 1\<rparr>)"

text \<open>\<open>Run\<close>: one tick of the driver. \<open>None\<close> is undefined behaviour in the synchroniser.\<close>

definition Run :: "env \<Rightarrow> collab \<Rightarrow> laser_mapping \<Rightarrow> laser_mapping option" where
  "Run E X s =
     (case SyncPackages s of
        None \<Rightarrow> None
      | Some (ok, s1) \<Rightarrow>
          if \<not> ok then Some s1
          else (let (kf1, scan_undistort) = imu_Process X (meas s1) (kf s1);
                    s2 = s1\<lparr>kf := kf1\<rparr>
                in if scan_undistort = [] then Some s2
                   else if \<not> lidar_odom s2 then Some (run_idle X scan_undistort s2)
                   else if flg_first_scan s2
                   then Some (s2\<lparr>ivox_AddPoints := ivox_AddPoints s2 @ [scan_undistort],
                                  first_lidar_time := lidar_bag_time (meas s2),
                                  flg_first_scan := False\<rparr>)
                   else (let s3 = s2\<lparr>reg := (reg s2)\<lparr>
                                     flg_EKF_inited :=
                                       (lidar_bag_time (meas s2) - first_lidar_time s2
                                          \<ge> INIT_TIME X),
                                     scan_down_body := voxel_scan_filter X scan_undistort\<rparr>\<rparr>
                         in if length (scan_down_body (reg s3)) < 5
                            then Some (s3\<lparr>lidar_odom := False\<rparr>)
                            else Some (run_update E X s3))))"

section \<open>Parameters\<close>

text \<open>
  The values that \<open>LoadParams\<close> and \<open>LoadParamsFromYAML\<close> read and that they branch on or
  that the members modelled here receive. The other values are stored without a test.
\<close>

record params =
  p_lidar_type :: int
  p_ivox_nearby_type :: int
  p_path_pub_en :: bool
  p_path_save_en :: bool
  p_scan_pub_en :: bool
  p_scan_body_pub_en :: bool
  p_pcd_save_en :: bool
  p_time_sync_en :: bool
  p_extrinsic_est_en :: bool
  p_filter_size_map :: real

definition store_params :: "params \<Rightarrow> laser_mapping \<Rightarrow> laser_mapping" where
  "store_params c s =
     s\<lparr>path_pub_en := p_path_pub_en c, path_save_en := p_path_save_en c,
       scan_pub_en := p_scan_pub_en c, scan_body_pub_en := p_scan_body_pub_en c,
       pcd_save_en := p_pcd_save_en c, time_sync_en := p_time_sync_en c,
       reg := (reg s)\<lparr>extrinsic_est_en := p_extrinsic_est_en c,
                      filter_size_map_min := p_filter_size_map c\<rparr>\<rparr>"

text \<open>The two tests on the enumerations, shared by both loaders word for word.\<close>

definition set_lidar_type :: "int \<Rightarrow> laser_mapping \<Rightarrow> laser_mapping option" where
  "set_lidar_type t s =
     (if t = 1 then Some (s\<lparr>lidar_type := AVIA\<rparr>)
      else if t = 2 then Some (s\<lparr>lidar_type := VELO32\<rparr>)
      else if t = 3 then Some (s\<lparr>lidar_type := OUST64\<rparr>)
      else None)"

definition set_nearby_type :: "int \<Rightarrow> laser_mapping \<Rightarrow> laser_mapping" where
  "set_nearby_type t s =
     (if t = 0 then s\<lparr>nearby_type := CENTER\<rparr>
      else if t = 6 then s\<lparr>nearby_type := NEARBY6\<rparr>
      else if t = 18 then s\<lparr>nearby_type := NEARBY18\<rparr>
      else if t = 26 then s\<lparr>nearby_type := NEARBY26\<rparr>
      else s\<lparr>nearby_type := NEARBY18\<rparr>)"

definition LoadParams :: "params \<Rightarrow> laser_mapping \<Rightarrow> bool \<times> laser_mapping" where
  "LoadParams c s =
     (let s1 = store_params c s
      in case set_lidar_type (p_lidar_type c) s1 of
           None \<Rightarrow> (False, s1)
         | Some s2 \<Rightarrow> (True, set_nearby_type (p_ivox_nearby_type c) s2))"

text \<open>
  What \<open>YAML::LoadFile\<close> and the conversions of \<open>LoadParamsFromYAML\<close> make of a file: the
  file cannot be read (the exception leaves the function), a key is missing or a value
  does not convert (caught, \<open>false\<close>; the members assigned before the failing conversion
  are not modelled, the members are returned as they were), or all values are there.
\<close>

datatype yaml = BadFile | BadConversion | Yaml params

definition LoadParamsFromYAML :: "yaml \<Rightarrow> laser_mapping \<Rightarrow> (bool \<times> laser_mapping) option" where
  "LoadParamsFromYAML y s =
     (case y of
        BadFile \<Rightarrow> None
      | BadConversion \<Rightarrow> Some (False, s)
      | Yaml c \<Rightarrow>
          (let s1 = store_params c s
           in case set_lidar_type (p_lidar_type c) s1 of
                None \<Rightarrow> Some (False, s1)
              | Some s2 \<Rightarrow>
                  Some (True, (set_nearby_type (p_ivox_nearby_type c) s2)\<lparr>run_in_offline := True\<rparr>)))"

text \<open>
  The result of \<open>InitWithoutROS\<close>, which fails exactly when loading does, and of \<open>InitROS\<close>,
  which does not look at the result of \<open>LoadParams\<close>.
\<close>

definition InitWithoutROS :: "yaml \<Rightarrow> laser_mapping \<Rightarrow> bool option" where
  "InitWithoutROS y s = map_option fst (LoadParamsFromYAML y s)"

definition InitROS :: "params \<Rightarrow> laser_mapping \<Rightarrow> bool" where
  "InitROS c s = (let (ok, s1) = LoadParams c s in True)"

section \<open>The iterated update\<close>

text \<open>
  Modelled from the spec: the iterated update of the filter
  (\<open>update_iterated_dyn_share_modified\<close>), which lives in the filter's header and not in
  \<open>laser_mapping.cc\<close>. The spec, section 4.4: for each of at most
  \<open>T_max\<close> iterations the observation model is called with the current iterate; if
  \<open>M = 0\<close> at any iteration the update is invalid and the predicted state and covariance
  are returned unchanged; otherwise the iterate moves by the solved step, the iteration
  ends early when the step is small, and the posterior covariance is formed at the end.
  \<open>advance\<close> stands for the steps (b) to (e): it returns the next iterate, the shared data
  for the next call and whether the step was small. \<open>M\<close> is \<open>effect_feat_num\<close>.
\<close>

fun ieskf_iterate ::
  "(state_ikfom \<Rightarrow> dyn_share \<Rightarrow> registration \<Rightarrow> dyn_share \<times> registration) \<Rightarrow>
   (state_ikfom \<Rightarrow> esekf \<Rightarrow> dyn_share \<Rightarrow> state_ikfom \<times> dyn_share \<times> bool) \<Rightarrow>
   (state_ikfom \<Rightarrow> esekf \<Rightarrow> dyn_share \<Rightarrow> esekf) \<Rightarrow>
   esekf \<Rightarrow> nat \<Rightarrow> state_ikfom \<Rightarrow> dyn_share \<Rightarrow> registration \<Rightarrow> esekf \<times> registration" where
  "ieskf_iterate obs advance posterior predicted 0 s d r = (posterior s predicted d, r)"
| "ieskf_iterate obs advance posterior predicted (Suc n) s d r =
     (let (d1, r1) = obs s d r
      in if effect_feat_num r1 = 0 then (predicted, r1)
         else (let (s1, d2, small) = advance s predicted d1
               in if small then (posterior s1 predicted d2, r1)
                  else ieskf_iterate obs advance posterior predicted n s1 d2 r1))"

section \<open>Concrete inputs\<close>

text \<open>
  Values at which the definitions are evaluated further down: the identity pose, a
  registration with no scan, the members with empty buffers and all times zero, and the
  usual cross-product matrix for \<open>SKEW_SYM_MATRIX\<close>.
\<close>

definition state0 :: state_ikfom where
  "state0 = \<lparr>pos = V3 0 0 0, rot = identity3, offset_R_L_I = identity3,
             offset_T_L_I = V3 0 0 0\<rparr>"

definition registration0 :: registration where
  "registration0 =
     \<lparr>scan_down_body = [], scan_down_world = [], nearest_points = [],
      point_selected_surf = [], plane_coef = [], residuals = [], corr_pts = [],
      corr_norm = [], effect_feat_num = 0, extrinsic_est_en = False,
      flg_EKF_inited = True, filter_size_map_min = 1, state_point = state0\<rparr>"

definition dyn_share0 :: dyn_share where
  "dyn_share0 = \<lparr>valid = True, converge = True, h_x = [], h = []\<rparr>"

definition skew :: "v3 \<Rightarrow> m3" where
  "skew v = M3 (V3 0 (- vz v) (vy v)) (V3 (vz v) 0 (- vx v)) (V3 (- vy v) (vx v) 0)"

definition point_at :: "real \<Rightarrow> real \<Rightarrow> real \<Rightarrow> point" where
  "point_at a b c = \<lparr>xyz = V3 a b c, intensity = 0, curvature = 0\<rparr>"

definition laser_mapping0 :: laser_mapping where
  "laser_mapping0 =
     \<lparr>lidar_buffer = [], time_buffer = [], imu_buffer = [],
      last_timestamp_lidar = 0, last_timestamp_imu = 0, timediff_lidar_wrt_imu = 0,
      time_sync_en = False, lidar_pushed = False, lidar_end_time = 0,
      lidar_mean_scantime = 0, scan_num = 0, scan_count = 0, publish_count = 0,
      meas = \<lparr>lidar = [], lidar_bag_time = 0, meas_end_time = 0, imu = []\<rparr>,
      lidar_odom = True, flg_first_scan = True, first_lidar_time = 0, path = [],
      msg_body_pose = \<lparr>pose_stamp = 0, pose_of = SetPosestamp state0\<rparr>,
      odom_aft_mapped = \<lparr>odom_stamp = 0, odom_pose = SetPosestamp state0,
                          covariance = replicate 36 0\<rparr>,
      run_in_offline = False, path_pub_en = True, path_save_en = True, scan_pub_en = True,
      scan_body_pub_en = True, pcd_save_en = False, pub_odom_aft_mapped = True,
      pcl_wait_save = [], frame_num = 0, lidar_type = AVIA, nearby_type = NEARBY18,
      kf = \<lparr>kf_x = state0, kf_P = (\<lambda>i j. if i = j then 1 else 0)\<rparr>,
      reg = registration0, ivox_AddPoints = [], published = []\<rparr>"

definition imu_at :: "real \<Rightarrow> imu_msg" where
  "imu_at t = \<lparr>imu_stamp = t, angular_velocity = V3 0 0 0, linear_acceleration = V3 0 0 0\<rparr>"

text \<open>
  A map of five points on the plane \<open>x = 1.8\<close>, returned as the neighbours of every
  query, a plane fit that finds this plane, and the squared distance for \<open>calc_dist\<close>.
\<close>

definition wall :: "point list" where
  "wall = [point_at 1.8 0 0, point_at 1.8 1 0, point_at 1.8 0 1, point_at 1.8 1 1,
           point_at 1.8 (- 1) 0]"

definition env0 :: env where
  "env0 = \<lparr>GetClosestPoint = (\<lambda>p. wall),
           esti_plane = (\<lambda>coef near. (True, V4 (V3 1 0 0) (- 1.8))),
           MIN_NUM_MATCH_POINTS = 3, NUM_MATCH_POINTS = 5, SKEW_SYM_MATRIX = skew,
           calc_dist = (\<lambda>a b. squaredNorm (sub3 a b))\<rparr>"

text \<open>The same with an empty map: no query finds a neighbour.\<close>

definition env_empty :: env where
  "env_empty = env0\<lparr>GetClosestPoint := (\<lambda>p. [])\<rparr>"

text \<open>The same with the neighbours and the fitted plane at \<open>x = 1.9\<close>.\<close>

definition env_near :: env where
  "env_near = env0\<lparr>GetClosestPoint := (\<lambda>p. [point_at 1.9 0 0, point_at 1.9 1 0,
                       point_at 1.9 0 1, point_at 1.9 1 1, point_at 1.9 (- 1) 0]),
                    esti_plane := (\<lambda>coef near. (True, V4 (V3 1 0 0) (- 1.9)))\<rparr>"

text \<open>A downsampled scan of five points at range 2.\<close>

definition scan5 :: "point list" where
  "scan5 = [point_at 2 0 0, point_at 0 2 0, point_at 0 0 2, point_at (- 2) 0 0,
            point_at 0 (- 2) 0]"

text \<open>The members as \<open>Run\<close> sizes them for a first scan before it starts the update.\<close>

definition sized :: "point list \<Rightarrow> registration" where
  "sized body =
     registration0\<lparr>scan_down_body := body,
       scan_down_world := resize (length body) PointType [],
       nearest_points := resize (length body) [] [],
       residuals := resize (length body) 0 [],
       point_selected_surf := resize (length body) True [],
       plane_coef := resize (length body) (V4 (V3 0 0 0) 0) []\<rparr>"

text \<open>
  The rule for dropping a candidate as the spec words it (section 4.1): there are at least
  \<open>K_match\<close> neighbour points whose distance to the centre \<open>c\<close> is at most the distance of the
  candidate to \<open>c\<close> plus \<open>1e-6\<close>.
\<close>

definition spec_drop :: "env \<Rightarrow> point list \<Rightarrow> v3 \<Rightarrow> point \<Rightarrow> bool" where
  "spec_drop E points_near c candidate \<longleftrightarrow>
     NUM_MATCH_POINTS E \<le>
       length (filter (\<lambda>q. calc_dist E (xyz q) c \<le> calc_dist E (xyz candidate) c + 0.000001)
                 points_near)"

text \<open>
  The Euclidean distance for \<open>calc_dist\<close>, and five neighbours on the vertical line through
  \<open>(4, 4, 4)\<close>, the centre of the cell of side 8 at the origin, in the order of their
  distance to the candidate \<open>(4, 4, 6)\<close>.
\<close>

definition env_euclid :: env where
  "env_euclid = env0\<lparr>calc_dist := (\<lambda>a b. norm3 (sub3 a b))\<rparr>"

definition column :: "point list" where
  "column = [point_at 4 4 4, point_at 4 4 9, point_at 4 4 10, point_at 4 4 11, point_at 4 4 12]"

text \<open>
  The members before the map update of a scan of the single point \<open>(4, 4, 6)\<close>, seen from
  the identity pose, with the given neighbours and a cell of side 8.
\<close>

definition map_reg :: "point list \<Rightarrow> registration" where
  "map_reg points_near =
     registration0\<lparr>scan_down_body := [point_at 4 4 6], scan_down_world := [PointType],
                   nearest_points := [points_near], filter_size_map_min := 8\<rparr>"

text \<open>
  A diagonal covariance with the entries 1, 2, 3, ... and the members in the Running state
  with scan-end time 1.5 and an odometry message whose covariance is still all zero.
\<close>

definition odom_state :: laser_mapping where
  "odom_state =
     laser_mapping0\<lparr>lidar_end_time := 1.5,
                    kf := \<lparr>kf_x = state0,
                           kf_P = (\<lambda>i j. if i = j then real (i + 1) else 0)\<rparr>\<rparr>"

text \<open>The odometry messages among the published ones, in order.\<close>

fun odometry_msgs :: "msg list \<Rightarrow> odometry list" where
  "odometry_msgs [] = []"
| "odometry_msgs (OdometryMsg m # ms) = m # odometry_msgs ms"
| "odometry_msgs (_ # ms) = odometry_msgs ms"

text \<open>
  A bundle in the Running state, after the first scan: the five points of \<open>scan5\<close>, the
  last of them 500 ms late, stamped 1, with IMU messages stamped 1, 1.25 and 1.75.
\<close>

definition scan_c :: "point list" where
  "scan_c = butlast scan5 @ [(last scan5)\<lparr>curvature := 500\<rparr>]"

definition running_state :: laser_mapping where
  "running_state =
     IMUCallBack (imu_at 1.75) (IMUCallBack (imu_at 1.25) (IMUCallBack (imu_at 1)
       (StandardPCLCallBack \<lparr>cloud_stamp = 1, cloud = scan_c\<rparr>
          (laser_mapping0\<lparr>flg_first_scan := False\<rparr>))))"

text \<open>
  Two scans of two points each; the last point of \<open>scan_a\<close> has the time offset 500 ms.
\<close>

definition scan_a :: "point list" where
  "scan_a = [point_at 1 0 0, (point_at 2 0 0)\<lparr>curvature := 500\<rparr>]"

definition scan_b :: "point list" where
  "scan_b = [point_at 0 1 0, point_at 0 2 0]"

text \<open>
  The members after a scan stamped 1 and IMU messages stamped 1, 1.25 and 1.5 have
  arrived at an object with empty buffers.
\<close>

definition sync_state :: laser_mapping where
  "sync_state =
     IMUCallBack (imu_at 1.5) (IMUCallBack (imu_at 1.25) (IMUCallBack (imu_at 1)
       (StandardPCLCallBack \<lparr>cloud_stamp = 1, cloud = scan_a\<rparr> laser_mapping0)))"

text \<open>
  The members after a scan stamped 2, then a scan stamped 1 (the stamp goes back), then an
  IMU message stamped 2.5 have arrived at an object with empty buffers.
\<close>

definition regress_state :: laser_mapping where
  "regress_state =
     IMUCallBack (imu_at 2.5)
       (StandardPCLCallBack \<lparr>cloud_stamp = 1, cloud = scan_b\<rparr>
         (StandardPCLCallBack \<lparr>cloud_stamp = 2, cloud = scan_a\<rparr> laser_mapping0))"

text \<open>
  Collaborators for a run: the IMU processor hands the scan on as it is and leaves the
  filter alone, the voxel filter keeps every point, the update changes nothing; and the
  same with an update that leaves the diagonal covariance behind.
\<close>

definition collab0 :: collab where
  "collab0 = \<lparr>imu_Process = (\<lambda>m k. (k, lidar m)), voxel_scan_filter = (\<lambda>ps. ps),
              update_iterated_dyn_share_modified = (\<lambda>k r. (k, r)), INIT_TIME = 0.1\<rparr>"

definition collab_update :: collab where
  "collab_update =
     collab0\<lparr>update_iterated_dyn_share_modified :=
       (\<lambda>k r. (k\<lparr>kf_P := (\<lambda>i j. if i = j then real (i + 1) else 0)\<rparr>, r))\<rparr>"

text \<open>Parameters with a known lidar type and the unknown value 7 for the neighbourhood.\<close>

definition params7 :: params where
  "params7 =
     \<lparr>p_lidar_type = 1, p_ivox_nearby_type = 7, p_path_pub_en = True, p_path_save_en = True,
      p_scan_pub_en = True, p_scan_body_pub_en = True, p_pcd_save_en = False,
      p_time_sync_en = False, p_extrinsic_est_en = False, p_filter_size_map = 0.5\<rparr>"

section \<open>Facts about the geometry\<close>

lemma squaredNorm_nonneg: "0 \<le> squaredNorm a"
  by (simp add: squaredNorm_def dot3_def)

lemma norm3_x_axis: "norm3 (V3 a 0 0) = \<bar>a\<bar>"
  by (simp add: norm3_def squaredNorm_def dot3_def)

lemma norm3_z_axis: "norm3 (V3 0 0 a) = \<bar>a\<bar>"
  by (simp add: norm3_def squaredNorm_def dot3_def)

text \<open>The gate without the square root, for evaluation.\<close>

lemma valid_corr_code [code]:
  "valid_corr p_body pd2 \<longleftrightarrow> (let c = 81 * pd2 * pd2 in c < 0 \<or> c * c < squaredNorm p_body)"
proof (cases "81 * pd2 * pd2 < 0")
  case True
  then show ?thesis
    using squaredNorm_nonneg [of p_body] by (simp add: valid_corr_def norm3_def Let_def)
next
  case False
  then have "81 * pd2 * pd2 < sqrt (squaredNorm p_body)
             \<longleftrightarrow> (81 * pd2 * pd2)\<^sup>2 < squaredNorm p_body"
    using squaredNorm_nonneg [of p_body]
    by (metis not_less real_less_rsqrt real_sqrt_less_iff real_sqrt_abs real_sqrt_unique)
  then show ?thesis
    using False by (simp add: valid_corr_def norm3_def Let_def power2_eq_square)
qed

section \<open>The validity gate of the observation model\<close>

text \<open>
  One pass of the first loop writes the slot of its own index only, so after the loop, and
  after \<open>ObsModel\<close>, the slot of a point holds what the pass for this point made of it.
\<close>

lemma lidar_match_frame:
  "scan_down_body (lidar_match E R t c j r) = scan_down_body r"
  "length (residuals (lidar_match E R t c j r)) = length (residuals r)"
  "length (point_selected_surf (lidar_match E R t c j r)) = length (point_selected_surf r)"
  "length (plane_coef (lidar_match E R t c j r)) = length (plane_coef r)"
  "k \<noteq> j \<Longrightarrow> residuals (lidar_match E R t c j r) ! k = residuals r ! k"
  "k \<noteq> j \<Longrightarrow> point_selected_surf (lidar_match E R t c j r) ! k = point_selected_surf r ! k"
  "k \<noteq> j \<Longrightarrow> plane_coef (lidar_match E R t c j r) ! k = plane_coef r ! k"
  by (auto simp: lidar_match_def refresh_corr_def validity_gate_def Let_def split: prod.splits)

lemma fold_lidar_match_frame:
  assumes "i \<notin> set xs"
  shows "scan_down_body (fold (lidar_match E R t c) xs r) = scan_down_body r
       \<and> length (residuals (fold (lidar_match E R t c) xs r)) = length (residuals r)
       \<and> length (point_selected_surf (fold (lidar_match E R t c) xs r))
           = length (point_selected_surf r)
       \<and> length (plane_coef (fold (lidar_match E R t c) xs r)) = length (plane_coef r)
       \<and> residuals (fold (lidar_match E R t c) xs r) ! i = residuals r ! i
       \<and> point_selected_surf (fold (lidar_match E R t c) xs r) ! i = point_selected_surf r ! i
       \<and> plane_coef (fold (lidar_match E R t c) xs r) ! i = plane_coef r ! i"
  using assms
proof (induction xs arbitrary: r)
  case Nil
  then show ?case by simp
next
  case (Cons j xs)
  then have "i \<noteq> j" and "i \<notin> set xs" by auto
  with Cons.IH [of "lidar_match E R t c j r"] show ?case
    by (simp add: lidar_match_frame)
qed

lemma lidar_match_slot_cong:
  assumes "scan_down_body ra = scan_down_body r"
    and "residuals ra ! i = residuals r ! i"
    and "point_selected_surf ra ! i = point_selected_surf r ! i"
    and "plane_coef ra ! i = plane_coef r ! i"
    and "length (residuals ra) = length (residuals r)"
    and "length (point_selected_surf ra) = length (point_selected_surf r)"
    and "length (plane_coef ra) = length (plane_coef r)"
    and "i < length (residuals r)" and "i < length (point_selected_surf r)"
    and "i < length (plane_coef r)"
  shows "residuals (lidar_match E R t c i ra) ! i = residuals (lidar_match E R t c i r) ! i"
    and "point_selected_surf (lidar_match E R t c i ra) ! i
           = point_selected_surf (lidar_match E R t c i r) ! i"
  using assms
  by (auto simp: lidar_match_def refresh_corr_def validity_gate_def Let_def split: prod.splits)

lemma collect_corr_frame:
  "residuals (fold collect_corr xs r) = residuals r
   \<and> point_selected_surf (fold collect_corr xs r) = point_selected_surf r"
  by (induction xs arbitrary: r) (simp_all add: collect_corr_def)

lemma obs_model_slots:
  "residuals (snd (ObsModel E s d r))
     = residuals (fold (lidar_match E (mm (rot s) (offset_R_L_I s))
                          (add3 (mv (rot s) (offset_T_L_I s)) (pos s)) (converge d))
                    [0..<length (scan_down_body r)] r)"
  "point_selected_surf (snd (ObsModel E s d r))
     = point_selected_surf (fold (lidar_match E (mm (rot s) (offset_R_L_I s))
                          (add3 (mv (rot s) (offset_T_L_I s)) (pos s)) (converge d))
                    [0..<length (scan_down_body r)] r)"
  by (simp_all add: ObsModel_def Let_def collect_corr_frame)

lemma fold_lidar_match_slot:
  assumes "i < n" and "i < length (residuals r)" and "i < length (point_selected_surf r)"
    and "i < length (plane_coef r)"
  shows "residuals (fold (lidar_match E R t c) [0..<n] r) ! i
           = residuals (lidar_match E R t c i r) ! i"
    and "point_selected_surf (fold (lidar_match E R t c) [0..<n] r) ! i
           = point_selected_surf (lidar_match E R t c i r) ! i"
proof -
  let ?f = "lidar_match E R t c"
  have split: "[0..<n] = [0..<i] @ i # [Suc i..<n]"
    using assms(1) by (metis le_add1 less_imp_add_positive plus_nat.add_0 upt_add_eq_append upt_conv_Cons)
  let ?ra = "fold ?f [0..<i] r"
  have a: "i \<notin> set [0..<i]" and b: "i \<notin> set [Suc i..<n]" by auto
  note fa = fold_lidar_match_frame [OF a, of E R t c r]
  note fb = fold_lidar_match_frame [OF b, of E R t c "?f i ?ra"]
  have whole: "fold ?f [0..<n] r = fold ?f [Suc i..<n] (?f i ?ra)"
    by (subst split) simp
  have c: "residuals (?f i ?ra) ! i = residuals (?f i r) ! i"
    "point_selected_surf (?f i ?ra) ! i = point_selected_surf (?f i r) ! i"
    by (rule lidar_match_slot_cong; simp add: fa assms)+
  show "residuals (fold ?f [0..<n] r) ! i = residuals (?f i r) ! i"
    and "point_selected_surf (fold ?f [0..<n] r) ! i = point_selected_surf (?f i r) ! i"
    using fb c by (simp_all add: whole)
qed

lemma refresh_corr_world:
  "refresh_corr E i pw (r\<lparr>scan_down_world := w\<rparr>) = (refresh_corr E i pw r)\<lparr>scan_down_world := w\<rparr>"
  by (simp add: refresh_corr_def Let_def split: prod.splits)

lemma validity_gate_world:
  "validity_gate i p pw (r\<lparr>scan_down_world := w\<rparr>) = (validity_gate i p pw r)\<lparr>scan_down_world := w\<rparr>"
  by (simp add: validity_gate_def Let_def)

text \<open>
  C1, as the code has it. Take a call of \<open>ObsModel\<close> and a downsampled point of index \<open>i\<close>
  that is selected when its gate is reached: after the refresh of its correspondence if
  \<open>converge\<close> is set (enough neighbours and a plane fit that succeeds), as it was otherwise.
  With \<open>p_body\<close> the point in the body frame, \<open>point_world\<close> its image under the current
  pose and \<open>pd2 = n \<cdot> p_w + d\<close> the residual against its plane: if the norm of \<open>p_body\<close>
  (not its square) exceeds 81 times the squared residual, the call records \<open>pd2\<close> as the
  residual of the point and the point is selected; if not, the residual of the point is
  left as it was.
\<close>

theorem validity_gate_norm:
  fixes E :: env and s :: state_ikfom and d :: dyn_share and r :: registration and i :: nat
  defines "p_body \<equiv> xyz (scan_down_body r ! i)"
  defines "point_world \<equiv>
     PointType\<lparr>xyz := add3 (mv (mm (rot s) (offset_R_L_I s)) p_body)
                         (add3 (mv (rot s) (offset_T_L_I s)) (pos s)),
               intensity := intensity (scan_down_body r ! i)\<rparr>"
  defines "at_gate \<equiv> (if converge d then refresh_corr E i point_world r else r)"
  defines "pd2 \<equiv> dot4 (plane_coef at_gate ! i) (V4 (xyz point_world) 1)"
  assumes "i < length (scan_down_body r)" and "i < length (residuals r)"
    and "i < length (point_selected_surf r)" and "i < length (plane_coef r)"
    and "point_selected_surf at_gate ! i"
  shows "(81 * pd2\<^sup>2 < norm3 p_body \<longrightarrow>
            residuals (snd (ObsModel E s d r)) ! i = pd2
            \<and> point_selected_surf (snd (ObsModel E s d r)) ! i)
       \<and> (\<not> 81 * pd2\<^sup>2 < norm3 p_body \<longrightarrow>
            residuals (snd (ObsModel E s d r)) ! i = residuals r ! i)"
proof -
  let ?R = "mm (rot s) (offset_R_L_I s)" and ?t = "add3 (mv (rot s) (offset_T_L_I s)) (pos s)"
  have slot: "residuals (snd (ObsModel E s d r)) ! i
                = residuals (lidar_match E ?R ?t (converge d) i r) ! i"
    "point_selected_surf (snd (ObsModel E s d r)) ! i
                = point_selected_surf (lidar_match E ?R ?t (converge d) i r) ! i"
    using assms(5-8) by (simp_all add: obs_model_slots fold_lidar_match_slot)
  have len: "i < length (residuals at_gate)" "i < length (point_selected_surf at_gate)"
    "residuals at_gate ! i = residuals r ! i"
    using assms(6-8)
    by (auto simp: at_gate_def refresh_corr_def Let_def split: prod.splits)
  have lm: "lidar_match E ?R ?t (converge d) i r
              = (validity_gate i p_body point_world at_gate)\<lparr>scan_down_world :=
                  (scan_down_world r)[i := point_world]\<rparr>"
    using assms(9)
    by (cases "converge d")
       (simp_all add: lidar_match_def Let_def refresh_corr_world validity_gate_world
          at_gate_def point_world_def p_body_def)
  show ?thesis
    using len assms(9)
    by (simp add: slot lm validity_gate_def valid_corr_def pd2_def Let_def power2_eq_square
        mult.assoc)
qed

text \<open>
  C1, witness: seen from the identity pose against the plane \<open>x = 1.9\<close>, the point
  \<open>(2, 0, 0)\<close> of norm 2 has the residual 0.1, and \<open>ObsModel\<close> records it.
\<close>

theorem validity_gate_norm_witness:
  "residuals (snd (ObsModel env_near state0 dyn_share0 (sized scan5))) ! 0 = 1 / 10
   \<and> point_selected_surf (snd (ObsModel env_near state0 dyn_share0 (sized scan5))) ! 0
   \<and> norm3 (xyz (scan_down_body (sized scan5) ! 0)) = 2"
proof -
  let ?r = "sized scan5"
  let ?pw = "PointType\<lparr>xyz := add3 (mv (mm (rot state0) (offset_R_L_I state0))
                                     (xyz (scan_down_body ?r ! 0)))
                                 (add3 (mv (rot state0) (offset_T_L_I state0)) (pos state0)),
                       intensity := intensity (scan_down_body ?r ! 0)\<rparr>"
  let ?g = "if converge dyn_share0 then refresh_corr env_near 0 ?pw ?r else ?r"
  have h: "0 < length (scan_down_body ?r)" "0 < length (residuals ?r)"
    "0 < length (point_selected_surf ?r)" "0 < length (plane_coef ?r)"
    "point_selected_surf ?g ! 0"
    by code_simp+
  have pd: "dot4 (plane_coef ?g ! 0) (V4 (xyz ?pw) 1) = 1 / 10"
    by code_simp
  have nb: "norm3 (xyz (scan_down_body ?r ! 0)) = 2"
    by (simp add: sized_def scan5_def point_at_def norm3_x_axis)
  from validity_gate_norm [OF h, unfolded pd nb] nb show ?thesis
    by (simp add: power2_eq_square)
qed

text \<open>
  C1, as the spec words it, fails: for the point \<open>(2, 0, 0)\<close> and the residual 0.2 against
  the plane \<open>x = 1.8\<close> the squared norm 4 exceeds \<open>81 \<cdot> 0.04 = 3.24\<close>, but the gate of the
  code compares the norm 2 and does not accept: \<open>ObsModel\<close> leaves the residual of the point
  at 0.
\<close>

theorem valid_corr_squared_norm_counterexample:
  "81 * (1 / 5)\<^sup>2 < squaredNorm (V3 2 0 0) \<and> \<not> valid_corr (V3 2 0 0) (1 / 5)
   \<and> dot4 (V4 (V3 1 0 0) (- 1.8)) (V4 (V3 2 0 0) 1) = 1 / 5
   \<and> xyz (scan_down_body (sized scan5) ! 0) = V3 2 0 0
   \<and> residuals (snd (ObsModel env0 state0 dyn_share0 (sized scan5))) ! 0 = 0"
proof -
  have a: "81 * (1 / 5)\<^sup>2 < squaredNorm (V3 2 0 0) \<and> \<not> valid_corr (V3 2 0 0) (1 / 5)"
    by (simp add: valid_corr_def norm3_x_axis squaredNorm_def dot3_def power2_eq_square)
  have b: "dot4 (V4 (V3 1 0 0) (- 1.8)) (V4 (V3 2 0 0) 1) = 1 / 5"
    "xyz (scan_down_body (sized scan5) ! 0) = V3 2 0 0"
    "residuals (snd (ObsModel env0 state0 dyn_share0 (sized scan5))) ! 0 = 0"
    by code_simp+
  from a b show ?thesis by simp
qed

section \<open>Points that fail the gate\<close>

text \<open>The gate never clears the selection flag of a point that reaches it.\<close>

lemma validity_gate_keeps_selection:
  "i < length (point_selected_surf r) \<Longrightarrow> point_selected_surf r ! i \<Longrightarrow>
   point_selected_surf (validity_gate i p_body point_world r) = point_selected_surf r"
  by (simp add: validity_gate_def Let_def list_update_same_conv)

text \<open>
  C2 does not hold of the code. The five points of \<open>scan5\<close>, seen from the identity pose
  against the plane \<open>x = 1.8\<close>, all fail the gate; after \<open>ObsModel\<close> all five are still
  selected, the effective count is 5, and the Jacobian and the measurement vector have
  five rows, filled from the residual slots as they were before.
\<close>

theorem obs_model_invalid_correspondence_kept:
  "map (\<lambda>p. valid_corr (xyz p) (dot4 (V4 (V3 1 0 0) (- 1.8)) (V4 (xyz p) 1))) scan5
     = [False, False, False, False, False]
   \<and> point_selected_surf (snd (ObsModel env0 state0 dyn_share0 (sized scan5)))
     = [True, True, True, True, True]
   \<and> effect_feat_num (snd (ObsModel env0 state0 dyn_share0 (sized scan5))) = 5
   \<and> valid (fst (ObsModel env0 state0 dyn_share0 (sized scan5)))
   \<and> length (h_x (fst (ObsModel env0 state0 dyn_share0 (sized scan5)))) = 5
   \<and> h (fst (ObsModel env0 state0 dyn_share0 (sized scan5))) = [0, 0, 0, 0, 0]"
  by code_simp

section \<open>No effective correspondence\<close>

text \<open>
  C9. When the effective count of a call of \<open>ObsModel\<close> is zero, the call sets the flag
  \<open>valid\<close> to false and leaves \<open>h_x\<close> and \<open>h\<close> as they were; and the iterated update, at
  whatever iteration this happens, returns the predicted state and covariance.
\<close>

theorem obs_model_no_effective_points:
  assumes "effect_feat_num (snd (ObsModel E s d r)) = 0"
  shows "valid (fst (ObsModel E s d r)) = False
       \<and> h_x (fst (ObsModel E s d r)) = h_x d
       \<and> h (fst (ObsModel E s d r)) = h d
       \<and> ieskf_iterate (ObsModel E) advance posterior predicted (Suc n) s d r
           = (predicted, snd (ObsModel E s d r))"
  using assms by (simp add: ObsModel_def Let_def split: if_splits prod.splits)

text \<open>
  C9, witness: with an empty map no point of \<open>scan5\<close> finds a neighbour, the effective
  count is zero, and an update of up to four iterations returns the prediction.
\<close>

theorem obs_model_no_effective_points_witness:
  "effect_feat_num (snd (ObsModel env_empty state0 dyn_share0 (sized scan5))) = 0
   \<and> valid (fst (ObsModel env_empty state0 dyn_share0 (sized scan5))) = False
   \<and> h_x (fst (ObsModel env_empty state0 dyn_share0 (sized scan5))) = []
   \<and> h (fst (ObsModel env_empty state0 dyn_share0 (sized scan5))) = []
   \<and> fst (ieskf_iterate (ObsModel env_empty) (\<lambda>s k d. (s, d, True)) (\<lambda>s k d. k)
            (kf laser_mapping0) (Suc 3) state0 dyn_share0 (sized scan5)) = kf laser_mapping0"
proof -
  have m: "effect_feat_num (snd (ObsModel env_empty state0 dyn_share0 (sized scan5))) = 0"
    by code_simp
  show ?thesis
    using m obs_model_no_effective_points [OF m, of "\<lambda>s k d. (s, d, True)" "\<lambda>s k d. k"
        "kf laser_mapping0" 3]
    by (simp add: dyn_share0_def)
qed

section \<open>The map update: where a point goes\<close>

declare readd_loop.simps [simp del]

text \<open>
  The loop over the first \<open>NUM_MATCH_POINTS\<close> neighbours leaves \<open>need_add\<close> true exactly
  when none of those it still has to visit is closer to the centre than the bound.
\<close>

lemma readd_loop_iff:
  "readd_loop E points_near center d readd_i \<longleftrightarrow>
     \<not> (\<exists>j. readd_i \<le> j \<and> j < NUM_MATCH_POINTS E \<and>
            calc_dist E (xyz (points_near ! j)) center < d + 0.000001)"
proof (induction E points_near center d readd_i rule: readd_loop.induct)
  case (1 E points_near center d readd_i)
  show ?case
  proof (cases "readd_i < NUM_MATCH_POINTS E")
    case False
    then show ?thesis by (simp add: readd_loop.simps [of E points_near center d readd_i])
  next
    case True
    show ?thesis
    proof (cases "calc_dist E (xyz (points_near ! readd_i)) center < d + 0.000001")
      case True
      with \<open>readd_i < NUM_MATCH_POINTS E\<close> show ?thesis
        by (auto simp: readd_loop.simps [of E points_near center d readd_i])
    next
      case False
      with True "1.IH" have "readd_loop E points_near center d readd_i \<longleftrightarrow>
          \<not> (\<exists>j. readd_i + 1 \<le> j \<and> j < NUM_MATCH_POINTS E \<and>
            calc_dist E (xyz (points_near ! j)) center < d + 0.000001)"
        by (simp add: readd_loop.simps [of E points_near center d readd_i])
      moreover have "\<And>j. readd_i \<le> j \<longleftrightarrow> j = readd_i \<or> readd_i + 1 \<le> j" by auto
      ultimately show ?thesis using False by metis
    qed
  qed
qed

lemma map_lane_no_need_iff:
  "map_lane E sz inited points_near point_world = NoNeedDownsample \<longleftrightarrow>
     points_near \<noteq> [] \<and> inited \<and>
     (\<exists>c. cell_center sz (xyz point_world) = Some c \<and>
          \<bar>vx (sub3 (xyz (points_near ! 0)) c)\<bar> > 0.5 * sz \<and>
          \<bar>vy (sub3 (xyz (points_near ! 0)) c)\<bar> > 0.5 * sz \<and>
          \<bar>vz (sub3 (xyz (points_near ! 0)) c)\<bar> > 0.5 * sz)"
  by (auto simp: map_lane_def Let_def split: option.splits)

lemma map_lane_dropped_iff:
  "map_lane E sz inited points_near point_world = Dropped \<longleftrightarrow>
     points_near \<noteq> [] \<and> inited \<and>
     (\<exists>c. cell_center sz (xyz point_world) = Some c \<and>
          \<not> (\<bar>vx (sub3 (xyz (points_near ! 0)) c)\<bar> > 0.5 * sz \<and>
             \<bar>vy (sub3 (xyz (points_near ! 0)) c)\<bar> > 0.5 * sz \<and>
             \<bar>vz (sub3 (xyz (points_near ! 0)) c)\<bar> > 0.5 * sz) \<and>
          NUM_MATCH_POINTS E \<le> length points_near \<and>
          (\<exists>j < NUM_MATCH_POINTS E.
             calc_dist E (xyz (points_near ! j)) c
               < calc_dist E (xyz point_world) c + 0.000001))"
  by (auto simp: map_lane_def Let_def readd_loop_iff split: option.splits)

lemma map_lane_to_add_iff:
  "map_lane E sz inited points_near point_world = ToAdd \<longleftrightarrow>
     map_lane E sz inited points_near point_world \<noteq> NoNeedDownsample \<and>
     map_lane E sz inited points_near point_world \<noteq> Dropped"
  by (cases "map_lane E sz inited points_near point_world") simp_all

text \<open>
  The loop of \<open>MapIncremental\<close> reads members that it does not change, so the two lists
  it builds are the world points of the indices of each lane, in index order.
\<close>

lemma fold_map_point:
  assumes "scan_down_body r0 = scan_down_body r" and "nearest_points r0 = nearest_points r"
    and "state_point r0 = state_point r" and "flg_EKF_inited r0 = flg_EKF_inited r"
    and "filter_size_map_min r0 = filter_size_map_min r"
  shows "snd (fold (map_point E) xs (r0, a, n)) =
     (a @ map (\<lambda>k. PointBodyToWorld (state_point r) (scan_down_body r ! k))
            (filter (\<lambda>k. map_lane E (filter_size_map_min r) (flg_EKF_inited r)
                            (nearest_points r ! k)
                            (PointBodyToWorld (state_point r) (scan_down_body r ! k)) = ToAdd) xs),
      n @ map (\<lambda>k. PointBodyToWorld (state_point r) (scan_down_body r ! k))
            (filter (\<lambda>k. map_lane E (filter_size_map_min r) (flg_EKF_inited r)
                            (nearest_points r ! k)
                            (PointBodyToWorld (state_point r) (scan_down_body r ! k))
                          = NoNeedDownsample) xs))"
  using assms
proof (induction xs arbitrary: r0 a n)
  case Nil
  then show ?case by simp
next
  case (Cons k xs)
  obtain r1 a1 n1 where st: "map_point E k (r0, a, n) = (r1, a1, n1)"
    by (cases "map_point E k (r0, a, n)") auto
  from st Cons.prems have same: "scan_down_body r1 = scan_down_body r"
    "nearest_points r1 = nearest_points r" "state_point r1 = state_point r"
    "flg_EKF_inited r1 = flg_EKF_inited r" "filter_size_map_min r1 = filter_size_map_min r"
    by (auto simp: map_point_def Let_def split: lane.splits)
  from st Cons.prems have acc:
    "a1 = a @ (if map_lane E (filter_size_map_min r) (flg_EKF_inited r) (nearest_points r ! k)
                    (PointBodyToWorld (state_point r) (scan_down_body r ! k)) = ToAdd
               then [PointBodyToWorld (state_point r) (scan_down_body r ! k)] else [])"
    "n1 = n @ (if map_lane E (filter_size_map_min r) (flg_EKF_inited r) (nearest_points r ! k)
                    (PointBodyToWorld (state_point r) (scan_down_body r ! k)) = NoNeedDownsample
               then [PointBodyToWorld (state_point r) (scan_down_body r ! k)] else [])"
    by (auto simp: map_point_def Let_def split: lane.splits)
  have "fold (map_point E) (k # xs) (r0, a, n) = fold (map_point E) xs (r1, a1, n1)"
    by (simp add: st)
  with Cons.IH [OF same, of a1 n1] acc show ?case
    by simp
qed

lemma map_incremental_lanes:
  "snd (MapIncremental E r) =
     [map (\<lambda>k. PointBodyToWorld (state_point r) (scan_down_body r ! k))
        (filter (\<lambda>k. map_lane E (filter_size_map_min r) (flg_EKF_inited r)
                        (nearest_points r ! k)
                        (PointBodyToWorld (state_point r) (scan_down_body r ! k)) = ToAdd)
           [0..<length (scan_down_body r)]),
      map (\<lambda>k. PointBodyToWorld (state_point r) (scan_down_body r ! k))
        (filter (\<lambda>k. map_lane E (filter_size_map_min r) (flg_EKF_inited r)
                        (nearest_points r ! k)
                        (PointBodyToWorld (state_point r) (scan_down_body r ! k))
                      = NoNeedDownsample)
           [0..<length (scan_down_body r)])]"
  using fold_map_point [of r r E "[0..<length (scan_down_body r)]" "[]" "[]"]
  by (auto simp: MapIncremental_def Let_def split: prod.splits)

lemma map_reg_world:
  "PointBodyToWorld (state_point (map_reg ns)) (scan_down_body (map_reg ns) ! 0) = point_at 4 4 6"
  by (simp add: map_reg_def registration0_def state0_def PointBodyToWorld_def point_at_def
      PointType_def identity3_def mv_def add3_def dot3_def)

lemma map_reg_fields:
  "nearest_points (map_reg ns) = [ns]" "flg_EKF_inited (map_reg ns)"
  "filter_size_map_min (map_reg ns) = 8" "length (scan_down_body (map_reg ns)) = 1"
  by (simp_all add: map_reg_def registration0_def)

lemma cell_center_446: "cell_center 8 (V3 4 4 6) = Some (V3 4 4 4)"
  by (simp add: cell_center_def)

text \<open>
  C8. \<open>MapIncremental\<close> hands to \<open>ivox_->AddPoints\<close>, as \<open>point_no_need_downsample\<close> in its
  second call, the world points of exactly those downsampled points, in index order, that
  have recorded neighbours while the filter counts as initialised and whose first neighbour
  is farther from the centre of the point's cell than half the cell side, in absolute
  value, on each of the three axes. For a cell side of 0 the centre is not a number, the
  test fails and no point takes this lane.
\<close>

theorem no_need_downsample_lane:
  fixes E :: env and r :: registration
  defines "W \<equiv> \<lambda>k. PointBodyToWorld (state_point r) (scan_down_body r ! k)"
  defines "sz \<equiv> filter_size_map_min r"
  shows "\<exists>points_to_add. snd (MapIncremental E r) =
     [points_to_add,
      map W (filter (\<lambda>k. nearest_points r ! k \<noteq> [] \<and> flg_EKF_inited r \<and>
                (\<exists>c. cell_center sz (xyz (W k)) = Some c \<and>
                     \<bar>vx (sub3 (xyz (nearest_points r ! k ! 0)) c)\<bar> > 0.5 * sz \<and>
                     \<bar>vy (sub3 (xyz (nearest_points r ! k ! 0)) c)\<bar> > 0.5 * sz \<and>
                     \<bar>vz (sub3 (xyz (nearest_points r ! k ! 0)) c)\<bar> > 0.5 * sz))
             [0..<length (scan_down_body r)])]"
  unfolding W_def sz_def
  by (simp add: map_incremental_lanes map_lane_no_need_iff)

text \<open>
  C8, witness: the first neighbour \<open>(9, 9, 9)\<close> is 5 away from the centre \<open>(4, 4, 4)\<close> on
  every axis, more than half the cell side 8, and the point \<open>(4, 4, 6)\<close> is handed over in
  the second call.
\<close>

theorem no_need_downsample_lane_witness:
  "\<exists>points_to_add. snd (MapIncremental env0 (map_reg [point_at 9 9 9]))
      = [points_to_add, [point_at 4 4 6]]"
  using no_need_downsample_lane [of env0 "map_reg [point_at 9 9 9]"]
  by (simp add: map_reg_world map_reg_fields cell_center_446 sub3_def point_at_def)

text \<open>
  C5, as the code has it. Of the downsampled points \<open>MapIncremental\<close> hands to
  \<open>ivox_->AddPoints\<close> all but the dropped ones: those of the no-need lane in its second
  call, the others in its first. A point is dropped exactly when it is in the downsample
  lane (recorded neighbours, filter initialised, the test on the three axes failed against
  the centre of its cell), at least \<open>NUM_MATCH_POINTS\<close> neighbours are recorded, and at least
  one of the first \<open>NUM_MATCH_POINTS\<close> of them has a \<open>calc_dist\<close> to the centre strictly
  below that of the point plus \<open>1e-6\<close>. For a cell side of 0 the centre is not a number
  and nothing is dropped.
\<close>

theorem downsample_lane_drop:
  fixes E :: env and r :: registration
  defines "W \<equiv> \<lambda>k. PointBodyToWorld (state_point r) (scan_down_body r ! k)"
  defines "sz \<equiv> filter_size_map_min r"
  defines "no_need \<equiv> \<lambda>k. nearest_points r ! k \<noteq> [] \<and> flg_EKF_inited r \<and>
                (\<exists>c. cell_center sz (xyz (W k)) = Some c \<and>
                     \<bar>vx (sub3 (xyz (nearest_points r ! k ! 0)) c)\<bar> > 0.5 * sz \<and>
                     \<bar>vy (sub3 (xyz (nearest_points r ! k ! 0)) c)\<bar> > 0.5 * sz \<and>
                     \<bar>vz (sub3 (xyz (nearest_points r ! k ! 0)) c)\<bar> > 0.5 * sz)"
  defines "dropped \<equiv> \<lambda>k. nearest_points r ! k \<noteq> [] \<and> flg_EKF_inited r \<and>
                (\<exists>c. cell_center sz (xyz (W k)) = Some c \<and>
                     \<not> (\<bar>vx (sub3 (xyz (nearest_points r ! k ! 0)) c)\<bar> > 0.5 * sz \<and>
                        \<bar>vy (sub3 (xyz (nearest_points r ! k ! 0)) c)\<bar> > 0.5 * sz \<and>
                        \<bar>vz (sub3 (xyz (nearest_points r ! k ! 0)) c)\<bar> > 0.5 * sz) \<and>
                     NUM_MATCH_POINTS E \<le> length (nearest_points r ! k) \<and>
                     (\<exists>j < NUM_MATCH_POINTS E.
                        calc_dist E (xyz (nearest_points r ! k ! j)) c
                          < calc_dist E (xyz (W k)) c + 0.000001))"
  shows "snd (MapIncremental E r) =
     [map W (filter (\<lambda>k. \<not> no_need k \<and> \<not> dropped k) [0..<length (scan_down_body r)]),
      map W (filter no_need [0..<length (scan_down_body r)])]"
  unfolding W_def sz_def no_need_def dropped_def
  by (simp add: map_incremental_lanes map_lane_to_add_iff map_lane_no_need_iff
      map_lane_dropped_iff)

text \<open>
  C5, witness: of the five neighbours in \<open>column\<close> the first is the centre itself, closer
  than the point \<open>(4, 4, 6)\<close>, which is dropped: both calls get an empty list.
\<close>

theorem downsample_lane_drop_witness:
  "snd (MapIncremental env0 (map_reg column)) = [[], []]"
proof -
  have "calc_dist env0 (xyz (column ! 0)) (V3 4 4 4)
          < calc_dist env0 (xyz (point_at 4 4 6)) (V3 4 4 4) + 0.000001"
    by (simp add: env0_def column_def point_at_def squaredNorm_def sub3_def dot3_def)
  then have e: "\<exists>j<NUM_MATCH_POINTS env0.
      calc_dist env0 (xyz (column ! j)) (V3 4 4 4)
          < calc_dist env0 (xyz (point_at 4 4 6)) (V3 4 4 4) + 0.000001"
    by (intro exI [of _ 0]) (simp add: env0_def)
  have l: "NUM_MATCH_POINTS env0 \<le> length column"
    by (simp add: env0_def column_def)
  have t: "\<not> (\<bar>vx (sub3 (xyz (column ! 0)) (V3 4 4 4))\<bar> > 0.5 * 8 \<and>
              \<bar>vy (sub3 (xyz (column ! 0)) (V3 4 4 4))\<bar> > 0.5 * 8 \<and>
              \<bar>vz (sub3 (xyz (column ! 0)) (V3 4 4 4))\<bar> > 0.5 * 8)"
    by (simp add: column_def point_at_def sub3_def)
  have w: "xyz (point_at 4 4 6) = V3 4 4 6"
    by (simp add: point_at_def)
  have n: "column \<noteq> []"
    by (simp add: column_def)
  show ?thesis
    using downsample_lane_drop [of env0 "map_reg column"] e l t n
    by (simp add: map_reg_world map_reg_fields w cell_center_446)
qed

text \<open>With the cell side 0 the same point is handed over in the first call.\<close>

lemma map_incremental_side_zero:
  "snd (MapIncremental env0 ((map_reg column)\<lparr>filter_size_map_min := 0\<rparr>)) = [[point_at 4 4 6], []]"
  by code_simp

text \<open>
  C5, as the spec words it, fails: with the neighbours of \<open>column\<close> only one of the five is
  within the point's distance of the centre \<open>(4, 4, 4)\<close>, fewer than \<open>K_match = 5\<close>, and yet
  \<open>MapIncremental\<close> drops the point; this is so for the squared and for the Euclidean
  distance.
\<close>

theorem downsample_drop_counterexample:
  "snd (MapIncremental env0 (map_reg column)) = [[], []]
   \<and> cell_center 8 (V3 4 4 6) = Some (V3 4 4 4)
   \<and> \<not> spec_drop env0 column (V3 4 4 4) (point_at 4 4 6)
   \<and> snd (MapIncremental env_euclid (map_reg column)) = [[], []]
   \<and> \<not> spec_drop env_euclid column (V3 4 4 4) (point_at 4 4 6)"
proof -
  note c = cell_center_446
  have a: "snd (MapIncremental env0 (map_reg column)) = [[], []]"
    "\<not> spec_drop env0 column (V3 4 4 4) (point_at 4 4 6)"
    by code_simp+
  have b: "map_lane env_euclid 8 True column (point_at 4 4 6) = Dropped"
    by (simp add: map_lane_def c column_def point_at_def sub3_def env_euclid_def env0_def
        norm3_z_axis readd_loop.simps [of _ _ _ _ 0])
  have b': "snd (MapIncremental env_euclid (map_reg column)) = [[], []]"
    using b by (simp add: map_incremental_lanes map_reg_world map_reg_fields)
  have d: "\<not> spec_drop env_euclid column (V3 4 4 4) (point_at 4 4 6)"
    by (simp add: spec_drop_def column_def point_at_def sub3_def env_euclid_def env0_def
        norm3_z_axis)
  from a b' c d show ?thesis by simp
qed

section \<open>The covariance of the odometry message\<close>

text \<open>
  In the Running state the message handed to the publisher is the stored message with the
  new stamp and pose, and so with the covariance that was stored before the call.
\<close>

lemma publish_odometry_message:
  "lidar_odom s \<Longrightarrow>
   published (PublishOdometry s) =
     published s @ [OdometryMsg ((odom_aft_mapped s)\<lparr>odom_stamp := lidar_end_time s,
                       odom_pose := SetPosestamp (state_point (reg s))\<rparr>)]"
  by (simp add: PublishOdometry_def Let_def)

text \<open>
  What the call stores in the member afterwards is the covariance of the filter with its
  first and second block of three swapped on rows and on columns, row by row.
\<close>

lemma upt_6: "[0..<6] = [0, 1, 2, 3, 4, 5]"
  by code_simp

lemma covariance_reordered:
  assumes "length c = 36" and "i < 6" and "j < 6"
  shows "fold (covariance_row P) [0..<6] c ! (i * 6 + j)
           = P (if i < 3 then i + 3 else i - 3) (if j < 3 then j + 3 else j - 3)"
proof -
  have i: "i = 0 \<or> i = 1 \<or> i = 2 \<or> i = 3 \<or> i = 4 \<or> i = 5"
    using assms(2) by arith
  have j: "j = 0 \<or> j = 1 \<or> j = 2 \<or> j = 3 \<or> j = 4 \<or> j = 5"
    using assms(3) by arith
  show ?thesis
    using i j assms(1)
    by (elim disjE) (simp_all add: upt_6 covariance_row_def nth_list_update)
qed

lemma publish_odometry_stores_covariance:
  assumes "lidar_odom s" and "length (covariance (odom_aft_mapped s)) = 36"
    and "i < 6" and "j < 6"
  shows "covariance (odom_aft_mapped (PublishOdometry s)) ! (i * 6 + j)
           = kf_P (kf s) (if i < 3 then i + 3 else i - 3) (if j < 3 then j + 3 else j - 3)"
  using assms by (simp add: PublishOdometry_def Let_def covariance_reordered)

text \<open>
  C3 does not hold of the code. A bundle in the Running state whose update leaves the
  filter with the diagonal covariance 1, 2, 3, ... emits one odometry message, and its
  covariance is all zero, as stored before; the covariance of the filter, with its two
  leading blocks of three swapped on rows and columns, is in the member only after the
  message has gone out. The same is seen on \<open>PublishOdometry\<close> alone.
\<close>

theorem publish_odometry_stale_covariance:
  "map_option (\<lambda>s. (map covariance (odometry_msgs (published s)), lidar_odom s,
                     kf_P (kf s) 3 3, covariance (odom_aft_mapped s)))
     (Run env0 collab_update running_state)
     = Some ([replicate 36 0], True, 4,
             [4, 0, 0, 0, 0, 0,  0, 5, 0, 0, 0, 0,  0, 0, 6, 0, 0, 0,
              0, 0, 0, 1, 0, 0,  0, 0, 0, 0, 2, 0,  0, 0, 0, 0, 0, 3])
   \<and> published (PublishOdometry odom_state)
     = [OdometryMsg \<lparr>odom_stamp = 1.5, odom_pose = SetPosestamp state0,
                      covariance = replicate 36 0\<rparr>]
   \<and> lidar_odom odom_state
   \<and> kf_P (kf odom_state) 3 3 = 4
   \<and> covariance (odom_aft_mapped (PublishOdometry odom_state))
     = [4, 0, 0, 0, 0, 0,  0, 5, 0, 0, 0, 0,  0, 0, 6, 0, 0, 0,
        0, 0, 0, 1, 0, 0,  0, 0, 0, 0, 2, 0,  0, 0, 0, 0, 0, 3]"
  by code_simp

section \<open>The IMU window of a bundle\<close>

text \<open>
  As long as no buffered message carries exactly the scan-end time, the loop moves the
  messages before the first one that is not earlier than the scan end, and leaves the
  rest.
\<close>

lemma drain_imu_below:
  "imu_time < t_e \<Longrightarrow> \<forall>m \<in> set buf. imu_stamp m \<noteq> t_e \<Longrightarrow>
   drain_imu t_e imu_time buf out =
     (out @ takeWhile (\<lambda>m. imu_stamp m < t_e) buf, dropWhile (\<lambda>m. imu_stamp m < t_e) buf)"
proof (induction buf arbitrary: imu_time out)
  case Nil
  then show ?case by simp
next
  case (Cons m buf)
  show ?case
  proof (cases "imu_stamp m > t_e")
    case True
    with Cons.prems show ?thesis by simp
  next
    case False
    with Cons.prems have lt: "imu_stamp m < t_e" by auto
    from Cons.prems have "\<forall>m \<in> set buf. imu_stamp m \<noteq> t_e" by simp
    from Cons.IH [OF lt this] lt Cons.prems(1) show ?thesis by simp
  qed
qed

lemma drain_imu_strictly_before:
  assumes "buf \<noteq> []" and "\<forall>m \<in> set buf. imu_stamp m \<noteq> t_e"
  shows "drain_imu t_e (imu_stamp (hd buf)) buf [] =
     (takeWhile (\<lambda>m. imu_stamp m < t_e) buf, dropWhile (\<lambda>m. imu_stamp m < t_e) buf)"
proof (cases "imu_stamp (hd buf) < t_e")
  case True
  from drain_imu_below [OF True assms(2)] show ?thesis by simp
next
  case False
  with assms(1) show ?thesis by (cases buf) simp_all
qed

text \<open>
  C4 does not hold of the code. A scan stamped 1 whose last point is 500 ms late ends at
  1.5; of the buffered messages stamped 1, 1.25 and 1.5 the synchroniser moves all three
  into the bundle, the one stamped with the scan-end time included, and the buffer is
  left empty. The loop itself treats a message stamped with the scan-end time in two ways:
  it takes it after an earlier message and leaves it when it is the first in the buffer.
\<close>

theorem sync_takes_sample_at_scan_end:
  "map_option (\<lambda>(ok, s). (ok, lidar_end_time s, map imu_stamp (imu (meas s)),
                           map imu_stamp (imu_buffer s)))
     (SyncPackages sync_state) = Some (True, 1.5, [1, 1.25, 1.5], [])
   \<and> map imu_stamp (imu_buffer sync_state) = [1, 1.25, 1.5]
   \<and> drain_imu 1.5 1 [imu_at 1, imu_at 1.5, imu_at 1.75] []
       = ([imu_at 1, imu_at 1.5], [imu_at 1.75])
   \<and> drain_imu 1.5 1.5 [imu_at 1.5, imu_at 1.75] [] = ([], [imu_at 1.5, imu_at 1.75])"
  by code_simp

section \<open>Scans and their bag times\<close>

lemma push_scan_buffers:
  "push_scan s = Some s1 \<Longrightarrow>
   lidar_buffer s1 = lidar_buffer s \<and> time_buffer s1 = time_buffer s \<and>
   imu_buffer s1 = imu_buffer s \<and> lidar_odom s1 = lidar_odom s \<and>
   ivox_AddPoints s1 = ivox_AddPoints s \<and> path s1 = path s"
  by (auto simp: push_scan_def Let_def split: if_splits list.splits)

lemma push_scan_defined:
  "lidar_buffer s \<noteq> [] \<Longrightarrow> length (lidar_buffer s) \<le> length (time_buffer s) \<Longrightarrow>
   \<exists>s1. push_scan s = Some s1"
  by (cases "lidar_buffer s"; cases "time_buffer s") (auto simp: push_scan_def Let_def)

text \<open>
  The synchroniser, \<open>Reset\<close> and the arrival of a scan whose stamp does not go back keep
  the two buffers of the same length.
\<close>

lemma sync_keeps_alignment:
  assumes "length (lidar_buffer s) = length (time_buffer s)"
    and "SyncPackages s = Some (ok, s')"
  shows "length (lidar_buffer s') = length (time_buffer s')"
  using assms
  by (auto simp: SyncPackages_def Let_def split: if_splits option.splits list.splits prod.splits
      dest!: push_scan_buffers)

lemma reset_aligns: "length (lidar_buffer (Reset s)) = length (time_buffer (Reset s))"
  by (simp add: Reset_def)

lemma callback_keeps_alignment:
  "\<not> cloud_stamp m < last_timestamp_lidar s \<Longrightarrow>
   length (lidar_buffer s) = length (time_buffer s) \<Longrightarrow>
   length (lidar_buffer (StandardPCLCallBack m s)) = length (time_buffer (StandardPCLCallBack m s))"
  by (simp add: StandardPCLCallBack_def Let_def)

text \<open>
  C10 does not hold of the code. After a scan stamped 2 and then a scan stamped 1, the
  scan buffer holds the second scan only and the time buffer holds both stamps; the next
  bundle pairs the scan stamped 1 with the bag time 2, and the buffers are left with
  lengths 0 and 1.
\<close>

theorem regression_leaves_stale_bag_time:
  "lidar_buffer regress_state = [scan_b]
   \<and> time_buffer regress_state = [2, 1]
   \<and> map_option (\<lambda>(ok, s). (ok, lidar (meas s) = scan_b, lidar_bag_time (meas s),
                              length (lidar_buffer s), length (time_buffer s)))
       (SyncPackages regress_state) = Some (True, True, 2, 0, 1)"
  by code_simp

section \<open>Stopping the odometry\<close>

lemma sync_defined:
  assumes "length (lidar_buffer s) \<le> length (time_buffer s)"
  shows "\<exists>ok s1. SyncPackages s = Some (ok, s1)"
proof (cases "lidar_buffer s = [] \<or> imu_buffer s = []")
  case True
  then have "SyncPackages s = Some (False, s)" by (simp add: SyncPackages_def)
  then show ?thesis by blast
next
  case False
  then obtain s1 where p: "push_scan s = Some s1"
    using push_scan_defined assms by blast
  from push_scan_buffers [OF p] False assms
  have "lidar_buffer s1 \<noteq> []" and "time_buffer s1 \<noteq> []" by auto
  with False p show ?thesis
    by (auto simp: SyncPackages_def Let_def split: prod.splits list.splits)
qed

lemma run_defined:
  assumes "SyncPackages s = Some (ok, s1)"
  shows "\<exists>s'. Run E X s = Some s'"
proof -
  obtain kf1 su where i: "imu_Process X (meas s1) (kf s1) = (kf1, su)"
    by (cases "imu_Process X (meas s1) (kf s1)") auto
  show ?thesis
    using assms i by (simp add: Run_def Let_def)
qed

lemma sync_keeps_driver:
  "SyncPackages s = Some (ok, s1) \<Longrightarrow>
   lidar_odom s1 = lidar_odom s \<and> ivox_AddPoints s1 = ivox_AddPoints s \<and> path s1 = path s"
  by (auto simp: SyncPackages_def Let_def split: if_splits option.splits list.splits prod.splits
      dest!: push_scan_buffers)

lemma run_idle_keeps:
  "lidar_odom (run_idle X u s) = lidar_odom s \<and>
   ivox_AddPoints (run_idle X u s) = ivox_AddPoints s \<and>
   length (path (run_idle X u s)) = 1"
  by (simp add: run_idle_def PublishPath_def PublishKeypoints_def PublishOdometry_def Let_def)

lemma run_idle_update_free:
  "run_idle (X\<lparr>update_iterated_dyn_share_modified := u\<rparr>) su s = run_idle X su s"
  by (simp add: run_idle_def)

lemma run_in_idle:
  assumes "\<not> lidar_odom s" and "Run E X s = Some s'"
  shows "\<not> lidar_odom s' \<and> ivox_AddPoints s' = ivox_AddPoints s \<and>
         Run E (X\<lparr>update_iterated_dyn_share_modified := u\<rparr>) s = Some s'"
proof -
  from assms(2) obtain ok s1 where sy: "SyncPackages s = Some (ok, s1)"
    by (auto simp: Run_def split: option.splits)
  note k = sync_keeps_driver [OF sy]
  show ?thesis
    using assms sy k
    by (auto simp: Run_def Let_def run_idle_keeps run_idle_update_free split: prod.splits if_splits)
qed

text \<open>
  C6, as the code has it. \<open>stopLIO\<close> returns true, leaves the driver idle and leaves the
  trajectory as it was. From then on a tick of the driver (the buffers being such that the
  synchroniser is defined) returns with the driver still idle, makes no call of
  \<open>ivox_->AddPoints\<close>, and its result does not depend on the iterated update of the
  filter, which is not called.
\<close>

theorem stop_lio_idle:
  fixes s :: laser_mapping
  defines "t \<equiv> snd (stopLIO s)"
  assumes "length (lidar_buffer s) \<le> length (time_buffer s)"
  shows "fst (stopLIO s) \<and> \<not> lidar_odom t \<and> path t = path s
       \<and> (\<exists>s'. Run E X t = Some s' \<and> \<not> lidar_odom s'
                \<and> ivox_AddPoints s' = ivox_AddPoints s
                \<and> Run E (X\<lparr>update_iterated_dyn_share_modified := u\<rparr>) t = Some s')"
proof -
  have t: "\<not> lidar_odom t" "path t = path s" "ivox_AddPoints t = ivox_AddPoints s"
    "lidar_buffer t = lidar_buffer s" "time_buffer t = time_buffer s"
    by (simp_all add: t_def stopLIO_def)
  with assms(2) obtain ok s1 where sy: "SyncPackages t = Some (ok, s1)"
    using sync_defined [of t] by auto
  then obtain s' where r: "Run E X t = Some s'"
    using run_defined by blast
  from run_in_idle [OF t(1) r] t r show ?thesis
    by (auto simp: stopLIO_def)
qed

text \<open>
  C6, witness: stopping with a scan and three IMU messages buffered, and running one
  tick.
\<close>

theorem stop_lio_idle_witness:
  "length (lidar_buffer sync_state) \<le> length (time_buffer sync_state)
   \<and> (\<exists>s'. Run env0 collab0 (snd (stopLIO sync_state)) = Some s' \<and> \<not> lidar_odom s'
            \<and> ivox_AddPoints s' = ivox_AddPoints sync_state)"
proof -
  have h: "length (lidar_buffer sync_state) \<le> length (time_buffer sync_state)"
    by code_simp
  from stop_lio_idle [OF h, of env0 collab0] h show ?thesis by blast
qed

text \<open>
  C6, as the spec words it, fails: a trajectory of one pose is still there after
  \<open>stopLIO\<close>.
\<close>

theorem stop_lio_keeps_path_counterexample:
  "path (snd (stopLIO (laser_mapping0\<lparr>path := [msg_body_pose laser_mapping0]\<rparr>))) \<noteq> []"
  by (simp add: stopLIO_def)

section \<open>An unknown neighbourhood type\<close>

text \<open>
  C7, as the code has it. For a value of \<open>ivox_nearby_type\<close> outside 0, 6, 18 and 26 and a
  known lidar type, both loaders return true and select \<open>NEARBY18\<close>, and both
  initialisations succeed.
\<close>

theorem unknown_nearby_type_falls_back:
  assumes "p_ivox_nearby_type c \<notin> {0, 6, 18, 26}" and "p_lidar_type c \<in> {1, 2, 3}"
  shows "fst (LoadParams c s) \<and> nearby_type (snd (LoadParams c s)) = NEARBY18
       \<and> (\<exists>s'. LoadParamsFromYAML (Yaml c) s = Some (True, s') \<and> nearby_type s' = NEARBY18)
       \<and> InitWithoutROS (Yaml c) s = Some True \<and> InitROS c s"
  using assms
  by (auto simp: LoadParams_def LoadParamsFromYAML_def InitWithoutROS_def InitROS_def
      set_lidar_type_def set_nearby_type_def Let_def split: prod.splits)

text \<open>C7, witness: the value 7 with the lidar type 1.\<close>

theorem unknown_nearby_type_falls_back_witness:
  "p_ivox_nearby_type params7 \<notin> {0, 6, 18, 26} \<and> p_lidar_type params7 \<in> {1, 2, 3}
   \<and> fst (LoadParams params7 laser_mapping0)
   \<and> nearby_type (snd (LoadParams params7 laser_mapping0)) = NEARBY18
   \<and> InitWithoutROS (Yaml params7) laser_mapping0 = Some True"
proof -
  have a: "p_ivox_nearby_type params7 \<notin> {0, 6, 18, 26}" and b: "p_lidar_type params7 \<in> {1, 2, 3}"
    by (simp_all add: params7_def)
  from unknown_nearby_type_falls_back [OF a b, of laser_mapping0] a b show ?thesis by simp
qed

text \<open>
  C7, as the spec words it, fails: with the value 7 loading returns true and
  initialisation succeeds.
\<close>

theorem unknown_nearby_type_counterexample:
  "p_ivox_nearby_type params7 = 7
   \<and> LoadParams params7 laser_mapping0
       = (True, (store_params params7 laser_mapping0)\<lparr>lidar_type := AVIA, nearby_type := NEARBY18\<rparr>)
   \<and> map_option fst (LoadParamsFromYAML (Yaml params7) laser_mapping0) = Some True
   \<and> InitWithoutROS (Yaml params7) laser_mapping0 = Some True"
  by (simp add: params7_def LoadParams_def LoadParamsFromYAML_def InitWithoutROS_def
      set_lidar_type_def set_nearby_type_def Let_def)

end
